theory Spec2Isabelle
  imports Complex_Main
begin

section \<open>Python strings\<close>

text \<open>
  A Python \<open>str\<close> is a sequence of Unicode code points, so a string is a list of
  code points here (\<open>len\<close> counts code points, not bytes).  ASCII text is written
  through \<open>str\<close>; the few other characters of the sources are named below.

  The Unicode database is modelled on ASCII: case mapping (\<open>lower\<close>, \<open>upper\<close>,
  \<open>re.IGNORECASE\<close>), decimal digits (\<open>\d\<close>) and word characters (\<open>\w\<close>,
  \<open>\b\<close>) are those of ASCII, and every other code point is a caseless character that
  is neither a digit nor a word character.  White space (\<open>str.strip\<close>, \<open>\s\<close>) is
  the full set of \<open>str.isspace\<close>.
\<close>

type_synonym cp = int
type_synonym ustr = "cp list"

definition str :: "string \<Rightarrow> ustr" where
  "str cs = map of_char cs"

definition EURO :: cp where "EURO = 8364"
definition SHEKEL :: cp where "SHEKEL = 8362"
definition DOLLAR :: cp where "DOLLAR = 36"
definition APOS :: cp where "APOS = 8217"
definition LDQ :: cp where "LDQ = 8220"
definition RDQ :: cp where "RDQ = 8221"
definition DEGREE :: cp where "DEGREE = 176"
definition NL :: cp where "NL = 10"

definition is_space :: "cp \<Rightarrow> bool" where
  "is_space c = ((9 \<le> c \<and> c \<le> 13) \<or> (28 \<le> c \<and> c \<le> 32) \<or> c = 133 \<or> c = 160
     \<or> c = 5760 \<or> (8192 \<le> c \<and> c \<le> 8202) \<or> c = 8232 \<or> c = 8233 \<or> c = 8239
     \<or> c = 8287 \<or> c = 12288)"

definition is_digit :: "cp \<Rightarrow> bool" where
  "is_digit c = (48 \<le> c \<and> c \<le> 57)"

definition is_lower_az :: "cp \<Rightarrow> bool" where
  "is_lower_az c = (97 \<le> c \<and> c \<le> 122)"

definition is_upper_az :: "cp \<Rightarrow> bool" where
  "is_upper_az c = (65 \<le> c \<and> c \<le> 90)"

definition is_word :: "cp \<Rightarrow> bool" where
  "is_word c = (is_digit c \<or> is_upper_az c \<or> is_lower_az c \<or> c = 95)"

definition lower_cp :: "cp \<Rightarrow> cp" where
  "lower_cp c = (if is_upper_az c then c + 32 else c)"

definition upper_cp :: "cp \<Rightarrow> cp" where
  "upper_cp c = (if is_lower_az c then c - 32 else c)"

definition lower :: "ustr \<Rightarrow> ustr" where
  "lower t = map lower_cp t"

definition upper :: "ustr \<Rightarrow> ustr" where
  "upper t = map upper_cp t"

definition lstrip :: "ustr \<Rightarrow> ustr" where
  "lstrip s = dropWhile is_space s"

definition rstrip :: "ustr \<Rightarrow> ustr" where
  "rstrip s = rev (dropWhile is_space (rev s))"

definition strip :: "ustr \<Rightarrow> ustr" where
  "strip s = rstrip (lstrip s)"

fun startswith :: "ustr \<Rightarrow> ustr \<Rightarrow> bool" where
  "startswith s [] = True"
| "startswith [] (p # ps) = False"
| "startswith (c # cs) (p # ps) = (c = p \<and> startswith cs ps)"

definition endswith :: "ustr \<Rightarrow> ustr \<Rightarrow> bool" where
  "endswith s p = startswith (rev s) (rev p)"

text \<open>\<open>p in s\<close> on strings: \<open>p\<close> occurs in \<open>s\<close> as a contiguous substring.\<close>

fun contains :: "ustr \<Rightarrow> ustr \<Rightarrow> bool" where
  "contains [] p = (p = [])"
| "contains (c # cs) p = (startswith (c # cs) p \<or> contains cs p)"

definition any_in :: "ustr list \<Rightarrow> ustr \<Rightarrow> bool" where
  "any_in ps s = list_ex (contains s) ps"

text \<open>
  \<open>s.replace(old, new)\<close> for a non-empty \<open>old\<close>: the occurrences are replaced from
  left to right, without overlap.  The test \<open>eq\<close> compares the characters, so that the
  same scan serves \<open>re.sub(re.escape(old), new, s, flags=re.IGNORECASE)\<close> with
  \<open>eq\<close> comparing the lower-cased characters.
\<close>

fun startswith_by :: "(cp \<Rightarrow> cp \<Rightarrow> bool) \<Rightarrow> ustr \<Rightarrow> ustr \<Rightarrow> bool" where
  "startswith_by eq s [] = True"
| "startswith_by eq [] (p # ps) = False"
| "startswith_by eq (c # cs) (p # ps) = (eq c p \<and> startswith_by eq cs ps)"

function replace_by :: "(cp \<Rightarrow> cp \<Rightarrow> bool) \<Rightarrow> ustr \<Rightarrow> ustr \<Rightarrow> ustr \<Rightarrow> ustr" where
  "replace_by eq old new [] = []"
| "replace_by eq old new (c # cs) =
     (if old \<noteq> [] \<and> startswith_by eq (c # cs) old
      then new @ replace_by eq old new (drop (length old) (c # cs))
      else c # replace_by eq old new cs)"
  by pat_completeness auto
termination
  by (relation "measure (\<lambda>(eq, old, new, s). length s)") (auto simp: neq_Nil_conv)

definition replace :: "ustr \<Rightarrow> ustr \<Rightarrow> ustr \<Rightarrow> ustr" where
  "replace s old new = replace_by (=) old new s"

definition sub_ignorecase :: "ustr \<Rightarrow> ustr \<Rightarrow> ustr \<Rightarrow> ustr" where
  "sub_ignorecase old new s = replace_by (\<lambda>a b. lower_cp a = lower_cp b) old new s"

section \<open>Regular expressions (the subset of \<open>re\<close> the sources use)\<close>

text \<open>
  A backtracking matcher with Python's priorities: the left alternative first, greedy
  repetition, the leftmost start position.  \<open>mt r st\<close> lists, in the order in which
  \<open>re\<close> would try them, the states in which a match of \<open>r\<close> from \<open>st\<close> can end; a
  state is the previous character (for \<open>\b\<close>), the rest of the text and the groups
  captured so far.  The bodies of all repetitions in the sources consume at least
  one character; \<open>Star\<close> iterates only while the text gets shorter.
\<close>

datatype re = Eps | Cls "cp \<Rightarrow> bool" | Seq re re | Alt re re | Star re | Bnd | Grp nat re

type_synonym mstate = "cp option \<times> ustr \<times> (nat \<times> ustr) list"

definition at_boundary :: "cp option \<Rightarrow> ustr \<Rightarrow> bool" where
  "at_boundary p s =
     ((case p of None \<Rightarrow> False | Some c \<Rightarrow> is_word c)
        \<noteq> (case s of [] \<Rightarrow> False | c # _ \<Rightarrow> is_word c))"

function mt :: "re \<Rightarrow> mstate \<Rightarrow> mstate list" where
  "mt Eps st = [st]"
| "mt (Cls P) (p, s, g) =
     (case s of [] \<Rightarrow> [] | c # cs \<Rightarrow> if P c then [(Some c, cs, g)] else [])"
| "mt (Seq a b) st = concat (map (mt b) (mt a st))"
| "mt (Alt a b) st = mt a st @ mt b st"
| "mt (Star a) (p, s, g) =
     concat (map (\<lambda>st'. if length (fst (snd st')) < length s then mt (Star a) st' else [])
                 (mt a (p, s, g))) @ [(p, s, g)]"
| "mt Bnd (p, s, g) = (if at_boundary p s then [(p, s, g)] else [])"
| "mt (Grp n a) (p, s, g) =
     map (\<lambda>(p', s', g'). (p', s', (n, take (length s - length s') s) # g')) (mt a (p, s, g))"
  by pat_completeness auto
termination
  by (relation "inv_image (less_than <*lex*> less_than)
                  (\<lambda>(r, st). (size r, length (fst (snd st))))") auto

declare mt.simps [simp del]

text \<open>\<open>re.search\<close>: the first start position, from the left, at which a match exists.\<close>

fun search_from :: "re \<Rightarrow> cp option \<Rightarrow> ustr \<Rightarrow> mstate option" where
  "search_from r p s =
     (case mt r (p, s, []) of
        x # _ \<Rightarrow> Some x
      | [] \<Rightarrow> (case s of [] \<Rightarrow> None | c # cs \<Rightarrow> search_from r (Some c) cs))"

text \<open>The match object, as the map from group numbers to the captured text.\<close>

definition re_search :: "re \<Rightarrow> ustr \<Rightarrow> (nat \<times> ustr) list option" where
  "re_search r s = map_option (\<lambda>(p, s', g). g) (search_from r None s)"

definition re_found :: "re \<Rightarrow> ustr \<Rightarrow> bool" where
  "re_found r s = (re_search r s \<noteq> None)"

definition re_group :: "(nat \<times> ustr) list \<Rightarrow> nat \<Rightarrow> ustr" where
  "re_group g n = (case map_of g n of Some s \<Rightarrow> s | None \<Rightarrow> [])"

subsection \<open>Pattern syntax\<close>

definition re_chr :: "cp \<Rightarrow> re" where
  "re_chr x = Cls (\<lambda>c. c = x)"

definition ichr :: "cp \<Rightarrow> re" where
  "ichr x = Cls (\<lambda>c. lower_cp c = lower_cp x)"

fun lit :: "ustr \<Rightarrow> re" where
  "lit [] = Eps"
| "lit (c # cs) = Seq (re_chr c) (lit cs)"

fun ilit :: "ustr \<Rightarrow> re" where
  "ilit [] = Eps"
| "ilit (c # cs) = Seq (ichr c) (ilit cs)"

fun alts :: "re list \<Rightarrow> re" where
  "alts [] = Cls (\<lambda>c. False)"
| "alts [r] = r"
| "alts (r # rs) = Alt r (alts rs)"

fun seqs :: "re list \<Rightarrow> re" where
  "seqs [] = Eps"
| "seqs [r] = r"
| "seqs (r # rs) = Seq r (seqs rs)"

definition re_plus :: "re \<Rightarrow> re" where
  "re_plus r = Seq r (Star r)"

definition re_opt :: "re \<Rightarrow> re" where
  "re_opt r = Alt r Eps"

text \<open>\<open>r{n}\<close> and the greedy \<open>r{1,n}\<close>.\<close>

fun re_times :: "nat \<Rightarrow> re \<Rightarrow> re" where
  "re_times 0 r = Eps"
| "re_times (Suc 0) r = r"
| "re_times (Suc n) r = Seq r (re_times n r)"

fun re_upto :: "nat \<Rightarrow> re \<Rightarrow> re" where
  "re_upto 0 r = Eps"
| "re_upto (Suc n) r = re_opt (Seq r (re_upto n r))"

definition re_from1 :: "nat \<Rightarrow> re \<Rightarrow> re" where
  "re_from1 n r = Seq r (re_upto (n - 1) r)"

definition re_d :: re where "re_d = Cls is_digit"
definition re_s :: re where "re_s = Cls is_space"
definition re_dot :: re where "re_dot = Cls (\<lambda>c. c \<noteq> NL)"


declare search_from.simps [simp del]

section \<open>Currency phrases (\<open>backend/utils/currency.py\<close>)\<close>

text \<open>
  Python floats are idealised as exact rationals: \<open>float(raw)\<close> of a decimal
  numeral is its value, without rounding, overflow or underflow.  \<open>py_float\<close>
  reads the numerals the amount pattern can capture (ASCII digits with an optional
  fraction, the thousands separators already removed); on any other text it is
  \<open>None\<close>, the \<open>ValueError\<close> that \<open>_parse_amount_str\<close> catches.
\<close>

definition digits_val :: "ustr \<Rightarrow> nat" where
  "digits_val ds = foldl (\<lambda>n c. 10 * n + nat (c - 48)) 0 ds"

definition py_float :: "ustr \<Rightarrow> rat option" where
  "py_float raw =
     (let ip = takeWhile is_digit raw; rest = dropWhile is_digit raw in
      if ip = [] then None
      else if rest = [] then Some (of_nat (digits_val ip))
      else if hd rest = 46 \<and> tl rest \<noteq> [] \<and> list_all is_digit (tl rest)
      then Some (of_nat (digits_val ip) + of_nat (digits_val (tl rest)) / 10 ^ length (tl rest))
      else None)"

text \<open>\<open>_AMOUNT = r"(\d{1,3}(?:,\d{3})*(?:\.\d+)?|\d+(?:\.\d+)?)"\<close>, as group \<open>n\<close>.\<close>

definition AMOUNT :: "nat \<Rightarrow> re" where
  "AMOUNT n =
     Grp n (Alt (seqs [re_from1 3 re_d, Star (Seq (re_chr 44) (re_times 3 re_d)),
                       re_opt (Seq (re_chr 46) (re_plus re_d))])
                (Seq (re_plus re_d) (re_opt (Seq (re_chr 46) (re_plus re_d)))))"

text \<open>\<open>_TOKEN = r"[A-Za-z$\<dots>]+"\<close>, the class holding the dollar, shekel and euro signs.\<close>

definition is_token_cp :: "cp \<Rightarrow> bool" where
  "is_token_cp c = (is_upper_az c \<or> is_lower_az c \<or> c = DOLLAR \<or> c = SHEKEL \<or> c = EURO)"

definition TOKEN :: "nat \<Rightarrow> re" where
  "TOKEN n = Grp n (re_plus (Cls is_token_cp))"

definition ALIASES :: "(ustr \<times> ustr) list" where
  "ALIASES =
     [(str ''dollar'', str ''USD''), (str ''dollars'', str ''USD''), ([DOLLAR], str ''USD''),
      (str ''usd'', str ''USD''),
      (str ''euro'', str ''EUR''), (str ''euros'', str ''EUR''), (str ''eur'', str ''EUR''),
      ([EURO], str ''EUR''),
      (str ''shekel'', str ''ILS''), (str ''shekels'', str ''ILS''), (str ''nis'', str ''ILS''),
      (str ''ils'', str ''ILS''), ([SHEKEL], str ''ILS''),
      (str ''pound'', str ''GBP''), (str ''pounds'', str ''GBP''), (str ''gbp'', str ''GBP''),
      (str ''yen'', str ''JPY''), (str ''jpy'', str ''JPY'')]"

record CurrencyQuery =
  amount :: rat
  from_ccy :: ustr
  to_ccy :: ustr

definition normalize_currency_token :: "ustr \<Rightarrow> ustr option" where
  "normalize_currency_token token =
     (if token = [] then None
      else let t = filter (\<lambda>c. is_lower_az c \<or> c = DOLLAR \<or> c = SHEKEL \<or> c = EURO)
                          (lower (strip token)) in
        if t = [] then None
        else if length t = 3 \<and> list_all is_lower_az t then Some (upper t)
        else map_of ALIASES t)"

definition parse_amount_str :: "ustr \<Rightarrow> rat option" where
  "parse_amount_str raw =
     (if raw = [] then None
      else case py_float (replace raw (str '','') []) of
             None \<Rightarrow> None
           | Some val \<Rightarrow> if val > 0 then Some val else None)"

definition DAY_N :: re where
  "DAY_N = seqs [Bnd, lit (str ''day''), re_plus re_s, re_plus re_d, Bnd]"

definition CURRENCY_WORD :: re where
  "CURRENCY_WORD =
     alts [Cls (\<lambda>c. c = DOLLAR \<or> c = EURO \<or> c = SHEKEL), lit (str ''usd''), lit (str ''eur''),
           lit (str ''ils''), lit (str ''gbp''), lit (str ''jpy''), lit (str ''dollar''),
           lit (str ''euro''), lit (str ''shekel''), lit (str ''pound''), lit (str ''yen'')]"

definition parse_currency_amount :: "ustr \<Rightarrow> rat option" where
  "parse_currency_amount text =
     (if text = [] then None
      else let t = strip text; low = lower t in
        if re_found DAY_N low \<and> \<not> re_found CURRENCY_WORD low then None
        else case re_search (seqs [Bnd, AMOUNT 1, Bnd]) t of
               None \<Rightarrow> None
             | Some m \<Rightarrow> parse_amount_str (re_group m 1))"

definition TO_OR_IN :: re where
  "TO_OR_IN = Alt (ilit (str ''to'')) (ilit (str ''in''))"

definition PAIR_TO :: re where
  "PAIR_TO = seqs [TOKEN 1, Star re_s, TO_OR_IN, Star re_s, TOKEN 2]"

definition PAIR_SEP :: re where
  "PAIR_SEP = seqs [TOKEN 1, Star re_s, Cls (\<lambda>c. c = 47 \<or> c = 45), Star re_s, TOKEN 2]"

definition pair_of_match :: "(nat \<times> ustr) list \<Rightarrow> nat \<Rightarrow> nat \<Rightarrow> (ustr \<times> ustr) option" where
  "pair_of_match m i j =
     (case (normalize_currency_token (re_group m i), normalize_currency_token (re_group m j)) of
        (Some a, Some b) \<Rightarrow> if a \<noteq> [] \<and> b \<noteq> [] \<and> a \<noteq> b then Some (a, b) else None
      | _ \<Rightarrow> None)"

definition parse_currency_pair :: "ustr \<Rightarrow> (ustr \<times> ustr) option" where
  "parse_currency_pair text =
     (if text = [] then None
      else let t = strip text in
        case (case re_search PAIR_TO t of None \<Rightarrow> None | Some m \<Rightarrow> pair_of_match m 1 2) of
          Some ab \<Rightarrow> Some ab
        | None \<Rightarrow>
            (case re_search PAIR_SEP t of None \<Rightarrow> None | Some m \<Rightarrow> pair_of_match m 1 2))"

definition QUERY_AMOUNT_FIRST :: re where
  "QUERY_AMOUNT_FIRST =
     seqs [Bnd, AMOUNT 1, Bnd, Star re_s, TOKEN 2, Star re_s, TO_OR_IN, Star re_s, TOKEN 3]"

definition QUERY_PAIR_FIRST :: re where
  "QUERY_PAIR_FIRST =
     seqs [TOKEN 1, Star re_s, ilit (str ''to''), Star re_s, TOKEN 2, Star re_s,
           Bnd, AMOUNT 3, Bnd]"

definition query_of_match ::
  "(nat \<times> ustr) list \<Rightarrow> nat \<Rightarrow> nat \<Rightarrow> nat \<Rightarrow> CurrencyQuery option" where
  "query_of_match m a i j =
     (case (parse_amount_str (re_group m a), pair_of_match m i j) of
        (Some v, Some (f, t)) \<Rightarrow> Some \<lparr>amount = v, from_ccy = f, to_ccy = t\<rparr>
      | _ \<Rightarrow> None)"

definition parse_currency_query :: "ustr \<Rightarrow> CurrencyQuery option" where
  "parse_currency_query text =
     (if text = [] then None
      else let t = strip text in
        case (case re_search QUERY_AMOUNT_FIRST t of
                None \<Rightarrow> None | Some m \<Rightarrow> query_of_match m 1 2 3) of
          Some q \<Rightarrow> Some q
        | None \<Rightarrow>
            (case re_search QUERY_PAIR_FIRST t of
               None \<Rightarrow> None | Some m \<Rightarrow> query_of_match m 3 1 2))"


section \<open>Values, errors and calendar dates\<close>

text \<open>
  An exception is a value: a function that can raise returns an \<open>py_error\<close> on the
  left of a sum, and one that mutates its argument before raising returns the
  mutated argument next to the error.
\<close>

datatype py_error = ValueError | RuntimeError | TypeError | AttributeError | Exception

text \<open>
  \<open>datetime.date\<close>: a proleptic Gregorian date with \<open>1 \<le> year \<le> 9999\<close>.  Dates are
  compared as Python compares them, and \<open>(a - b).days\<close> is the difference of the
  ordinals.
\<close>

record date =
  year :: int
  month :: int
  day :: int

definition is_leap :: "int \<Rightarrow> bool" where
  "is_leap y = (y mod 4 = 0 \<and> (y mod 100 \<noteq> 0 \<or> y mod 400 = 0))"

definition days_in_month :: "int \<Rightarrow> int \<Rightarrow> int" where
  "days_in_month y m =
     (if m = 2 then (if is_leap y then 29 else 28)
      else if m = 4 \<or> m = 6 \<or> m = 9 \<or> m = 11 then 30 else 31)"

definition valid_date :: "date \<Rightarrow> bool" where
  "valid_date dt = (1 \<le> year dt \<and> year dt \<le> 9999 \<and> 1 \<le> month dt \<and> month dt \<le> 12
     \<and> 1 \<le> day dt \<and> day dt \<le> days_in_month (year dt) (month dt))"

definition date_less :: "date \<Rightarrow> date \<Rightarrow> bool" where
  "date_less a b = (year a < year b \<or> (year a = year b \<and>
     (month a < month b \<or> (month a = month b \<and> day a < day b))))"

definition days_before_year :: "int \<Rightarrow> int" where
  "days_before_year y = (y - 1) * 365 + (y - 1) div 4 - (y - 1) div 100 + (y - 1) div 400"

definition days_before_month :: "int \<Rightarrow> int \<Rightarrow> int" where
  "days_before_month y m = (\<Sum>k \<leftarrow> [1 ..< nat m]. days_in_month y (int k))"

definition toordinal :: "date \<Rightarrow> int" where
  "toordinal dt = days_before_year (year dt) + days_before_month (year dt) (month dt) + day dt"

definition days_between :: "date \<Rightarrow> date \<Rightarrow> int" where
  "days_between a b = toordinal a - toordinal b"

text \<open>\<open>dt.replace(year=y)\<close> raises \<open>ValueError\<close> when the new date does not exist.\<close>

definition replace_year :: "date \<Rightarrow> int \<Rightarrow> py_error + date" where
  "replace_year dt y =
     (if valid_date (dt\<lparr>year := y\<rparr>) then Inr (dt\<lparr>year := y\<rparr>) else Inl ValueError)"

text \<open>
  The values of a decoded JSON object (and \<open>date\<close>, which \<open>apply_updates\<close> also
  accepts).  A \<open>dict\<close> is an association list in insertion order; \<open>d.get(k)\<close> is
  \<open>PNone\<close> for a key that is absent.
\<close>

datatype pyval = PNone | PBool bool | PInt int | PFloat rat | PStr ustr | PDate date
  | PList "pyval list" | PDict "(ustr \<times> pyval) list"

type_synonym pydict = "(ustr \<times> pyval) list"

definition dict_get :: "pydict \<Rightarrow> ustr \<Rightarrow> pyval" where
  "dict_get dct k = (case map_of dct k of None \<Rightarrow> PNone | Some v \<Rightarrow> v)"

section \<open>Trip profile (\<open>backend/models/trip_profile.py\<close>)\<close>

record TripProfile =
  destination :: "ustr option"
  start_date :: "date option"
  end_date :: "date option"
  duration_days :: "int option"
  budget :: "ustr option"
  travelers :: "ustr option"
  interests :: "ustr list"
  pace :: "ustr option"
  constraints :: "ustr list"

definition new_TripProfile :: TripProfile where
  "new_TripProfile = \<lparr>destination = None, start_date = None, end_date = None,
     duration_days = None, budget = None, travelers = None, interests = [], pace = None,
     constraints = []\<rparr>"

text \<open>A free-text field: set to the stripped text when that is a non-empty string.\<close>

definition text_update :: "pyval \<Rightarrow> ustr option \<Rightarrow> ustr option" where
  "text_update v old =
     (case v of PStr t \<Rightarrow> if strip t \<noteq> [] then Some (strip t) else old | _ \<Rightarrow> old)"

text \<open>
  A date field: a \<open>date\<close> is taken as it is, a non-blank string goes through
  \<open>date.fromisoformat\<close> (the parameter \<open>fromiso\<close>, \<open>None\<close> for its \<open>ValueError\<close>), and
  anything else leaves the field alone.
\<close>

definition date_update ::
  "(ustr \<Rightarrow> date option) \<Rightarrow> pyval \<Rightarrow> date option \<Rightarrow> py_error + date option" where
  "date_update fromiso v old =
     (case v of
        PDate dt \<Rightarrow> Inr (Some dt)
      | PStr t \<Rightarrow>
          if strip t \<noteq> [] then
            (case fromiso (strip t) of None \<Rightarrow> Inl ValueError | Some dt \<Rightarrow> Inr (Some dt))
          else Inr old
      | _ \<Rightarrow> Inr old)"

text \<open>\<open>isinstance(v, int)\<close> holds for \<open>bool\<close> as well, with \<open>True == 1\<close>.\<close>

definition int_update :: "pyval \<Rightarrow> int option \<Rightarrow> int option" where
  "int_update v old =
     (case v of PInt i \<Rightarrow> Some i | PBool b \<Rightarrow> Some (if b then 1 else 0) | _ \<Rightarrow> old)"

text \<open>The loop over a list update: the stripped, non-empty strings not yet present.\<close>

fun merge_items :: "pyval list \<Rightarrow> ustr list \<Rightarrow> ustr list" where
  "merge_items [] acc = acc"
| "merge_items (PStr t # vs) acc =
     (let cleaned = strip t in
      if cleaned \<noteq> [] \<and> cleaned \<notin> set acc then merge_items vs (acc @ [cleaned])
      else merge_items vs acc)"
| "merge_items (v # vs) acc = merge_items vs acc"

definition list_update_field :: "pyval \<Rightarrow> ustr list \<Rightarrow> ustr list" where
  "list_update_field v old = (case v of PList vs \<Rightarrow> merge_items vs old | _ \<Rightarrow> old)"

text \<open>
  \<open>apply_updates\<close> mutates the profile field by field, so an exception of
  \<open>date.fromisoformat\<close> leaves the fields assigned before it changed: the result is
  the profile as the call leaves it, and the exception if one was raised.
\<close>

definition apply_updates ::
  "(ustr \<Rightarrow> date option) \<Rightarrow> TripProfile \<Rightarrow> pydict \<Rightarrow> TripProfile \<times> py_error option" where
  "apply_updates fromiso self updates =
     (if updates = [] then (self, None)
      else
        let p1 = self\<lparr>destination :=
                   text_update (dict_get updates (str ''destination'')) (destination self)\<rparr> in
        case date_update fromiso (dict_get updates (str ''start_date'')) (start_date p1) of
          Inl e \<Rightarrow> (p1, Some e)
        | Inr sd \<Rightarrow>
            let p2 = p1\<lparr>start_date := sd\<rparr> in
            case date_update fromiso (dict_get updates (str ''end_date'')) (end_date p2) of
              Inl e \<Rightarrow> (p2, Some e)
            | Inr ed \<Rightarrow>
                (p2\<lparr>end_date := ed,
                    duration_days :=
                      int_update (dict_get updates (str ''duration_days'')) (duration_days p2),
                    budget := text_update (dict_get updates (str ''budget'')) (budget p2),
                    travelers :=
                      text_update (dict_get updates (str ''travelers'')) (travelers p2),
                    pace := text_update (dict_get updates (str ''pace'')) (pace p2),
                    interests :=
                      list_update_field (dict_get updates (str ''interests'')) (interests p2),
                    constraints :=
                      list_update_field (dict_get updates (str ''constraints''))
                        (constraints p2)\<rparr>,
                 None))"

section \<open>Intents, decisions, messages and session state (\<open>backend/models\<close>)\<close>

datatype Intent = ITINERARY_PLANNING | ATTRACTIONS_RECOMMENDATIONS | PACKING_LIST
  | WEATHER_QUERY | CURRENCY_CONVERSION | CONSTRAINTS_UPDATE | CLARIFICATION_NEEDED
  | OUT_OF_SCOPE

fun intent_value :: "Intent \<Rightarrow> ustr" where
  "intent_value ITINERARY_PLANNING = str ''itinerary_planning''"
| "intent_value ATTRACTIONS_RECOMMENDATIONS = str ''attractions_recommendations''"
| "intent_value PACKING_LIST = str ''packing_list''"
| "intent_value WEATHER_QUERY = str ''weather_query''"
| "intent_value CURRENCY_CONVERSION = str ''currency_conversion''"
| "intent_value CONSTRAINTS_UPDATE = str ''constraints_update''"
| "intent_value CLARIFICATION_NEEDED = str ''clarification_needed''"
| "intent_value OUT_OF_SCOPE = str ''out_of_scope''"

definition GOAL_INTENTS :: "Intent set" where
  "GOAL_INTENTS = {ITINERARY_PLANNING, ATTRACTIONS_RECOMMENDATIONS, PACKING_LIST,
     WEATHER_QUERY, CURRENCY_CONVERSION}"

datatype Action = ASK_CLARIFICATION | GENERATE_RESPONSE | CALL_TOOL | OUT_OF_SCOPE_RESPONSE

record Decision =
  action :: Action
  missing_info :: "ustr list"
  tool_name :: "ustr option"
  decision_notes :: "ustr option"
  tool_payload :: "pydict option"

text \<open>
  The constructor with its validator \<open>_check_tool_name\<close>: \<open>not self.tool_name\<close>
  holds for \<open>None\<close> and for the empty string.
\<close>

definition Decision_init ::
  "Action \<Rightarrow> ustr list \<Rightarrow> ustr option \<Rightarrow> ustr option \<Rightarrow> pydict option
     \<Rightarrow> py_error + Decision" where
  "Decision_init a mi tn nt tp =
     (if a = CALL_TOOL \<and> (tn = None \<or> tn = Some []) then Inl ValueError
      else if a \<noteq> CALL_TOOL \<and> tn \<noteq> None then Inl ValueError
      else if a \<noteq> CALL_TOOL \<and> tp \<noteq> None then Inl ValueError
      else Inr \<lparr>action = a, missing_info = mi, tool_name = tn, decision_notes = nt,
                tool_payload = tp\<rparr>)"

datatype Role = User | Assistant | System

text \<open>The time stamps of messages and states are real time and are left out.\<close>

record Message =
  role :: Role
  content :: ustr

record State =
  session_id :: ustr
  trip_profile :: TripProfile
  conversation_history :: "Message list"
  last_intent :: "Intent option"
  primary_intent :: "Intent option"
  turn_count :: int
  pending_missing_info :: "ustr list"

definition new_State :: "ustr \<Rightarrow> State" where
  "new_State sid = \<lparr>session_id = sid, trip_profile = new_TripProfile,
     conversation_history = [], last_intent = None, primary_intent = None, turn_count = 0,
     pending_missing_info = []\<rparr>"

section \<open>Validator (\<open>backend/core/validator.py\<close>)\<close>

record ValidationResult =
  ok :: bool
  vmissing_info :: "ustr list"
  problems :: "ustr list"

text \<open>\<open>not trip.destination\<close>: unset, or the empty string.\<close>

definition no_destination :: "TripProfile \<Rightarrow> bool" where
  "no_destination trip = (destination trip = None \<or> destination trip = Some [])"

definition has_dates_or_duration :: "State \<Rightarrow> bool" where
  "has_dates_or_duration st =
     (let trip = trip_profile st in
      duration_days trip \<noteq> None \<or> (start_date trip \<noteq> None \<and> end_date trip \<noteq> None))"

definition validate :: "Intent \<Rightarrow> State \<Rightarrow> ValidationResult" where
  "validate intent st =
     (let trip = trip_profile st;
          probs = (case duration_days trip of
                     Some n \<Rightarrow> if n \<le> 0 then [str ''duration_days must be > 0''] else []
                   | None \<Rightarrow> []);
          missing =
            (if intent = ITINERARY_PLANNING then
               (if no_destination trip then [str ''destination''] else [])
               @ (if \<not> has_dates_or_duration st then [str ''dates_or_duration''] else [])
             else if intent = WEATHER_QUERY then
               (if no_destination trip then [str ''destination''] else [])
             else if intent \<in> {ATTRACTIONS_RECOMMENDATIONS, PACKING_LIST} then
               (if no_destination trip then [str ''destination''] else [])
             else [])
      in \<lparr>ok = (length missing = 0 \<and> length probs = 0), vmissing_info = missing,
            problems = probs\<rparr>)"

section \<open>Weather rules (\<open>backend/utils/weather_rules.py\<close>)\<close>

definition MONTH_PATTERN :: re where
  "MONTH_PATTERN =
     seqs [Bnd,
           alts [Seq (ilit (str ''jan'')) (re_opt (ilit (str ''uary''))),
                 Seq (ilit (str ''feb'')) (re_opt (ilit (str ''ruary''))),
                 Seq (ilit (str ''mar'')) (re_opt (ilit (str ''ch''))),
                 Seq (ilit (str ''apr'')) (re_opt (ilit (str ''il''))),
                 ilit (str ''may''),
                 Seq (ilit (str ''jun'')) (re_opt (ilit (str ''e''))),
                 Seq (ilit (str ''jul'')) (re_opt (ilit (str ''y''))),
                 Seq (ilit (str ''aug'')) (re_opt (ilit (str ''ust''))),
                 Seq (ilit (str ''sep'')) (re_opt (ilit (str ''tember''))),
                 Seq (ilit (str ''oct'')) (re_opt (ilit (str ''ober''))),
                 Seq (ilit (str ''nov'')) (re_opt (ilit (str ''ember''))),
                 Seq (ilit (str ''dec'')) (re_opt (ilit (str ''ember'')))],
           Bnd]"

definition mentions_month :: "ustr \<Rightarrow> bool" where
  "mentions_month t = re_found MONTH_PATTERN t"

text \<open>\<open>date.today()\<close> is the parameter \<open>today\<close>.\<close>

definition is_within_open_meteo_forecast_window :: "date \<Rightarrow> TripProfile \<Rightarrow> int \<Rightarrow> bool" where
  "is_within_open_meteo_forecast_window today trip horizon_days =
     (case (start_date trip, end_date trip) of
        (None, None) \<Rightarrow> True
      | (sd, ed) \<Rightarrow>
          (case (case sd of None \<Rightarrow> ed | Some x \<Rightarrow> Some x) of
             None \<Rightarrow> True
           | Some start \<Rightarrow>
               let end_d = (case ed of None \<Rightarrow> start | Some y \<Rightarrow> y) in
               if date_less end_d start then False
               else if date_less end_d today then False
               else if days_between start today > horizon_days then False
               else if days_between end_d today > horizon_days then False
               else if days_between end_d start + 1 > horizon_days then False
               else True))"

definition SEASONAL_TRIGGERS :: "ustr list" where
  "SEASONAL_TRIGGERS = [str ''usually'', str ''typical'', str ''around this time of year'',
     str ''on average'', str ''generally'']"

definition is_seasonal_weather_question :: "ustr \<Rightarrow> bool" where
  "is_seasonal_weather_question t = any_in SEASONAL_TRIGGERS (lower t)"

section \<open>Currency memory (\<open>backend/utils/history_extractors.py\<close>)\<close>

record CurrencyParts =
  part_amount :: "rat option"
  part_pair :: "(ustr \<times> ustr) option"

definition extract_currency_parts :: "ustr \<Rightarrow> CurrencyParts" where
  "extract_currency_parts t =
     (case parse_currency_query t of
        Some full \<Rightarrow> \<lparr>part_amount = Some (amount full),
                       part_pair = Some (from_ccy full, to_ccy full)\<rparr>
      | None \<Rightarrow> \<lparr>part_amount = parse_currency_amount t, part_pair = parse_currency_pair t\<rparr>)"

text \<open>
  The loop over \<open>reversed(conversation_history)\<close>: \<open>ms\<close> is the history still to
  visit, newest first, and \<open>cnt\<close>, \<open>fa\<close>, \<open>fp\<close> are \<open>lookback_count\<close>,
  \<open>found_amount\<close> and \<open>found_pair\<close>.  The result is the two variables when the
  loop ends, by \<open>break\<close> or at the end of the history.
\<close>

fun scan_history ::
  "bool \<Rightarrow> nat \<Rightarrow> bool \<Rightarrow> bool \<Rightarrow> Message list \<Rightarrow> nat \<Rightarrow> rat option
     \<Rightarrow> (ustr \<times> ustr) option \<Rightarrow> rat option \<times> (ustr \<times> ustr) option" where
  "scan_history allow mx need_amount need_pair [] cnt fa fp = (fa, fp)"
| "scan_history allow mx need_amount need_pair (m # ms) cnt fa fp =
     (if role m \<noteq> User then scan_history allow mx need_amount need_pair ms cnt fa fp
      else let t = strip (content m) in
        if t = [] then scan_history allow mx need_amount need_pair ms cnt fa fp
        else if cnt + 1 > mx then (fa, fp)
        else
          let prev_parts = extract_currency_parts t;
              fp' = (if fp = None \<and> part_pair prev_parts \<noteq> None
                     then part_pair prev_parts else fp);
              fa' = (if allow \<and> fa = None \<and> part_amount prev_parts \<noteq> None
                     then part_amount prev_parts else fa)
          in if (\<not> need_amount \<or> fa' \<noteq> None) \<and> (\<not> need_pair \<or> fp' \<noteq> None)
             then (fa', fp')
             else scan_history allow mx need_amount need_pair ms (cnt + 1) fa' fp')"

definition combine_currency_query_from_history ::
  "ustr \<Rightarrow> Message list \<Rightarrow> nat \<Rightarrow> bool \<Rightarrow> CurrencyQuery option" where
  "combine_currency_query_from_history user_message history max_lookback_user_messages
       allow_amount_from_history =
     (case parse_currency_query user_message of
        Some full_now \<Rightarrow> Some full_now
      | None \<Rightarrow>
          let now_parts = extract_currency_parts user_message;
              amount_now = part_amount now_parts;
              pair_now = part_pair now_parts
          in if amount_now = None \<and> pair_now = None then None
             else
               let (found_amount, found_pair) =
                     scan_history allow_amount_from_history max_lookback_user_messages
                       (amount_now = None) (pair_now = None) (rev history) 0 None None;
                   amt = (if amount_now \<noteq> None then amount_now else found_amount);
                   pair = (if pair_now \<noteq> None then pair_now else found_pair)
               in case (amt, pair) of
                    (Some a, Some (f, t)) \<Rightarrow> Some \<lparr>amount = a, from_ccy = f, to_ccy = t\<rparr>
                  | _ \<Rightarrow> None)"

section \<open>Decision logic (\<open>backend/core/decision_logic.py\<close>)\<close>

definition is_numeric_amount :: "ustr \<Rightarrow> bool" where
  "is_numeric_amount msg = (parse_currency_amount msg \<noteq> None)"

text \<open>Step 1 and step 2 of the currency branch: the query resolved for this turn.\<close>

definition resolve_currency_query :: "ustr \<Rightarrow> State \<Rightarrow> CurrencyQuery option" where
  "resolve_currency_query user_message st =
     (case parse_currency_query user_message of
        Some q \<Rightarrow> Some q
      | None \<Rightarrow>
          if pending_missing_info st = [str ''currency_amount'']
             \<or> pending_missing_info st = [str ''currency_pair'']
          then combine_currency_query_from_history user_message
                 (butlast (conversation_history st)) 10
                 (pending_missing_info st = [str ''currency_amount''])
          else None)"

definition decide :: "date \<Rightarrow> Intent \<Rightarrow> ValidationResult \<Rightarrow> ustr \<Rightarrow> State
    \<Rightarrow> py_error + Decision" where
  "decide today intent validation user_message st =
     (if intent = OUT_OF_SCOPE then
        Decision_init OUT_OF_SCOPE_RESPONSE [] None
          (Some (str ''User request is outside supported travel domain'')) None
      else if intent = CLARIFICATION_NEEDED then
        Decision_init ASK_CLARIFICATION [str ''goal''] None
          (Some (str ''User message unclear -> ask for goal'')) None
      else if \<not> ok validation then
        Decision_init ASK_CLARIFICATION (vmissing_info validation) None
          (Some (str ''Missing or invalid information'')) None
      else if intent = WEATHER_QUERY then
        (if mentions_month user_message \<or> is_seasonal_weather_question user_message then
           Decision_init GENERATE_RESPONSE [] None
             (Some (str ''Seasonal weather wording -> general seasonal answer (no tool)'')) None
         else if \<not> is_within_open_meteo_forecast_window today (trip_profile st) 16 then
           Decision_init GENERATE_RESPONSE [] None
             (Some (str
               ''Weather query outside Open-Meteo window -> seasonal/general answer (no tool)''))
             None
         else
           Decision_init CALL_TOOL [] (Some (str ''weather''))
             (Some (str ''Weather query within horizon -> call tool'')) None)
      else if intent = CURRENCY_CONVERSION then
        (let currency_query = resolve_currency_query user_message st in
         if pending_missing_info st = [str ''currency_amount''] \<and> currency_query = None
            \<and> \<not> is_numeric_amount user_message then
           Decision_init ASK_CLARIFICATION [str ''currency_amount''] None
             (Some (str ''Still missing currency_amount (sticky slot)'')) None
         else case currency_query of
           None \<Rightarrow>
             (if parse_currency_pair user_message \<noteq> None then
                Decision_init ASK_CLARIFICATION [str ''currency_amount''] None
                  (Some (str ''Currency conversion missing amount (pair detected)'')) None
              else
                Decision_init ASK_CLARIFICATION [str ''currency_pair''] None
                  (Some (str ''Currency conversion missing currency pair'')) None)
         | Some q \<Rightarrow>
             Decision_init CALL_TOOL [] (Some (str ''currency''))
               (Some (str
                 ''Currency conversion -> call tool (use resolved currency_query; no re-parse in FlowController)''))
               (Some [(str ''amount'', PFloat (amount q)), (str ''from_ccy'', PStr (from_ccy q)),
                      (str ''to_ccy'', PStr (to_ccy q))]))
      else if intent \<in> {ITINERARY_PLANNING, ATTRACTIONS_RECOMMENDATIONS, PACKING_LIST} then
        Decision_init GENERATE_RESPONSE [] None
          (Some (intent_value intent @ str '' -> generate response'')) None
      else
        Decision_init GENERATE_RESPONSE [] None
          (Some (str ''Default fallback routing for intent='' @ intent_value intent)) None)"

section \<open>Clarification questions (\<open>backend/utils/clarification.py\<close>)\<close>

definition build_clarification_question :: "ustr list \<Rightarrow> ustr" where
  "build_clarification_question mi =
     (case mi of
        [] \<Rightarrow> str ''What details can you share about your trip (destination and dates)?''
      | first # _ \<Rightarrow>
          if first = str ''destination'' then str ''Where are you traveling to (city/country)?''
          else if first = str ''dates'' \<or> first = str ''dates_or_duration'' then
            str ''What are your travel dates (or how many days is the trip)?''
          else if first = str ''budget'' then
            str ''What'' @ [APOS] @ str ''s your budget level (low / mid / high)?''
          else if first = str ''travelers'' then
            str ''Who'' @ [APOS]
              @ str ''s traveling (solo / couple / friends / family, kids yes/no)?''
          else if first = str ''interests'' then
            str ''What are your interests (e.g., food, museums, nature, nightlife)?''
          else if first = str ''pace'' then
            str ''What pace do you prefer (relaxed / balanced / intense)?''
          else if first = str ''goal'' then
            str ''What would you like help with: itinerary, attractions, packing, weather, or currency conversion?''
          else if first = str ''currency_pair'' then
            str ''Which currencies are you converting between? (e.g., USD to EUR)'' @ [NL]
              @ str ''Then tell me the amount (e.g., 100).''
          else if first = str ''currency_amount'' then
            str ''What amount do you want to convert? (e.g., 100)''
          else if first = str ''currency_from'' then
            str ''What is the FROM currency? (e.g., USD)''
          else if first = str ''currency_to'' then str ''What is the TO currency? (e.g., EUR)''
          else str ''What'' @ [APOS]
            @ str ''s one more detail about your trip that matters most (destination, dates, budget, travelers)?'')"

section \<open>Recovery (\<open>backend/core/fallback_handler.py\<close>)\<close>

record FallbackResult =
  message :: ustr
  used_llm :: bool
  fpending_missing_info :: "ustr list"
  resolved_intent :: "Intent option"

definition GOAL_SELECTION :: ustr where
  "GOAL_SELECTION =
     str ''What would you like help with: itinerary, attractions, packing, weather, or currency conversion?''"

definition CANNED_GOAL_SELECTION :: ustr where
  "CANNED_GOAL_SELECTION =
     str ''I can help with itineraries, attractions, packing, weather, or currency conversion. What would you like to do next?''"

text \<open>\<open>x if x in _GOAL_INTENTS else None\<close>, for an optional intent \<open>x\<close>.\<close>

definition goal_of :: "Intent option \<Rightarrow> Intent option" where
  "goal_of x = (case x of Some i \<Rightarrow> if i \<in> GOAL_INTENTS then Some i else None | None \<Rightarrow> None)"

text \<open>
  \<open>recover\<close>.  The generation collaborator is reached through
  \<open>self._get_client().generate_text(full_prompt)\<close>; \<open>llm\<close> is what that expression
  does in this call: it raises (the client cannot be built, the prompt is refused, the
  API call fails or answers nothing: \<open>GeminiClient\<close> raises in each case) or it
  returns a text, or \<open>None\<close>.  The prompt is built by string formatting from the state,
  the user message, the recent messages and the error text, which have no other use
  in \<open>recover\<close>; the validator is the handler's own.
\<close>

definition recover :: "(py_error + ustr option) \<Rightarrow> State \<Rightarrow> Intent option
    \<Rightarrow> py_error + FallbackResult" where
  "recover llm st intent_for_flow =
     (if pending_missing_info st \<noteq> [] then
        let pending = take 1 (pending_missing_info st) in
        Inr \<lparr>message = build_clarification_question pending, used_llm = False,
             fpending_missing_info = pending, resolved_intent = None\<rparr>
      else
        let active_goal = goal_of (last_intent st) in
        if active_goal = None \<and> goal_of intent_for_flow = None then
          Inr \<lparr>message = GOAL_SELECTION, used_llm = False,
               fpending_missing_info = [str ''goal''], resolved_intent = None\<rparr>
        else
          let goal = (if goal_of intent_for_flow \<noteq> None then intent_for_flow else active_goal);
              invalid = (case goal of
                           None \<Rightarrow> None
                         | Some g \<Rightarrow> let validation = validate g st in
                                     if \<not> ok validation then Some validation else None)
          in case invalid of
               Some validation \<Rightarrow>
                 let pending = take 1 (vmissing_info validation) in
                 Inr \<lparr>message = build_clarification_question pending, used_llm = False,
                      fpending_missing_info = pending, resolved_intent = goal\<rparr>
             | None \<Rightarrow>
                 (case llm of
                    Inl e \<Rightarrow> Inl e
                  | Inr answer \<Rightarrow>
                      let t = strip (case answer of None \<Rightarrow> [] | Some a \<Rightarrow> a) in
                      if t = [] then
                        Inr \<lparr>message = CANNED_GOAL_SELECTION, used_llm = False,
                             fpending_missing_info = [str ''goal''], resolved_intent = goal\<rparr>
                      else
                        Inr \<lparr>message = t, used_llm = True, fpending_missing_info = [],
                             resolved_intent = goal\<rparr>))"

section \<open>Trust layer (\<open>backend/core/trust_layer.py\<close>)\<close>

record TrustResult =
  trust_text :: ustr
  flagged :: bool
  reasons :: "ustr list"

definition REALTIME_CLAIMS :: "ustr list" where
  "REALTIME_CLAIMS = [str ''real-time'', str ''live data'', str ''right now'', str ''currently'',
     str ''as of now'', str ''i just checked'', str ''i checked online'', str ''i looked it up'',
     str ''from the internet'', str ''according to google'']"

text \<open>The code fence: three backquotes.\<close>

definition FENCE :: ustr where
  "FENCE = [96, 96, 96]"

definition looks_like_tool_code :: "ustr \<Rightarrow> bool" where
  "looks_like_tool_code t =
     (let low = lower t in
      contains low (FENCE @ str ''tool_code'') \<or> contains low (str ''currency_conversion('')
      \<or> contains low (str ''weather('') \<or> contains low (str ''invoke-restmethod''))"

definition strip_tool_code_fences :: "ustr \<Rightarrow> ustr" where
  "strip_tool_code_fences t = strip (replace (replace t (FENCE @ str ''tool_code'') []) FENCE [])"

definition rewrite_no_realtime_claim :: "ustr \<Rightarrow> ustr" where
  "rewrite_no_realtime_claim t =
     strip (foldl (\<lambda>cleaned p. sub_ignorecase p (str ''based on available info'') cleaned)
                  t REALTIME_CLAIMS)"

definition user_requested_exact_daily :: "ustr \<Rightarrow> bool" where
  "user_requested_exact_daily user_message =
     any_in [str ''exact daily'', str ''day-by-day'', str ''day by day'', str ''each day'',
             str ''every day'', str ''for each day'', str ''daily highs'', str ''daily lows'',
             str ''precipitation in mm for each day'', str ''exact highs'', str ''exact lows'',
             str ''exact precipitation'']
       (lower user_message)"

definition user_requested_live :: "ustr \<Rightarrow> bool" where
  "user_requested_live user_message =
     any_in [str ''right now'', str ''live'', str ''currently'', str ''as of now'',
             str ''exact temperature'', str ''0.1'']
       (lower user_message)"

definition SEASONAL_MARKERS :: "ustr list" where
  "SEASONAL_MARKERS = [str ''typical'', str ''usually'', str ''generally'', str ''on average'',
     str ''average'', str ''around'', str ''roughly'', str ''expect average'', str ''seasonal'',
     str ''in general'', str ''often'', str ''range of'', str ''ranges from'', str ''between'']"

definition SPECIFIC_REQUEST_MARKERS :: "ustr list" where
  "SPECIFIC_REQUEST_MARKERS = [str ''exact'', str ''daily'', str ''each day'', str ''day-by-day'',
     str ''right now'', str ''live'', str ''currently'', str ''today'', str ''tomorrow'',
     str ''on '']"

definition FORECAST_CLAIM_MARKERS :: "ustr list" where
  "FORECAST_CLAIM_MARKERS = [str ''on '', str ''tomorrow'', str ''today'', str ''this weekend'',
     str ''next week'', str ''expect a high of'', str ''expect a low of'']"

definition FORECAST_PATTERNS :: "re list" where
  "FORECAST_PATTERNS =
     [seqs [Bnd, re_opt (re_chr 45), re_from1 2 re_d, Star re_s, re_chr DEGREE, Star re_s,
            lit (str ''c''), Bnd],
      seqs [Bnd, re_opt (re_chr 45), re_from1 3 re_d, Star re_s, re_chr DEGREE, Star re_s,
            lit (str ''f''), Bnd],
      seqs [Bnd, re_from1 3 re_d, Star re_s, lit (str ''mm''), Bnd],
      seqs [Bnd, re_from1 3 re_d, Star re_s, lit (str ''km/h''), Bnd],
      seqs [Bnd, re_from1 3 re_d, Star re_s, lit (str ''kmh''), Bnd],
      seqs [Bnd, lit (str ''high''), re_opt (lit (str ''s'')), re_plus re_s, lit (str ''of''),
            re_plus re_s, re_from1 2 re_d, Bnd],
      seqs [Bnd, lit (str ''low''), re_opt (lit (str ''s'')), re_plus re_s, lit (str ''of''),
            re_plus re_s, re_from1 2 re_d, Bnd]]"

definition contains_specific_forecast_numbers :: "ustr \<Rightarrow> ustr \<Rightarrow> bool" where
  "contains_specific_forecast_numbers t user_message =
     (let low = lower t; user_low = lower user_message in
      if any_in SEASONAL_MARKERS low \<and> \<not> user_requested_exact_daily user_message then False
      else
        let strict = any_in SPECIFIC_REQUEST_MARKERS user_low;
            has_numbers = list_ex (\<lambda>p. re_found p low) FORECAST_PATTERNS;
            sounds_like_forecast = any_in FORECAST_CLAIM_MARKERS low
        in has_numbers \<and> (strict \<or> sounds_like_forecast))"

text \<open>The optional fraction \<open>(\.\d+)?\<close> and the alternation of currency codes.\<close>

definition FRACTION :: "nat \<Rightarrow> re" where
  "FRACTION n = re_opt (Grp n (Seq (re_chr 46) (re_plus re_d)))"

definition CODES :: "nat \<Rightarrow> re" where
  "CODES n = Grp n (alts [ilit (str ''usd''), ilit (str ''eur''), ilit (str ''ils''),
                          ilit (str ''gbp''), ilit (str ''jpy'')])"

definition RATE_OF :: re where
  "RATE_OF = seqs [Bnd, ilit (str ''rate''), re_plus re_s, ilit (str ''of''), re_plus re_s,
                   re_plus re_d, FRACTION 1, Bnd]"

definition NUMBER_CODE :: re where
  "NUMBER_CODE = seqs [Bnd, re_plus re_d, FRACTION 1, Star re_s, CODES 2, Bnd]"

definition CODE_NUMBER :: re where
  "CODE_NUMBER = seqs [Bnd, CODES 1, Star re_s, re_plus re_d, FRACTION 2, Bnd]"

definition SYMBOL_NUMBER :: re where
  "SYMBOL_NUMBER = seqs [Cls (\<lambda>c. c = DOLLAR \<or> c = EURO \<or> c = SHEKEL), Star re_s,
                         re_plus re_d, FRACTION 1]"

definition CONVERTS_TO :: re where
  "CONVERTS_TO = seqs [Bnd, ilit (str ''converts''), re_plus re_s, ilit (str ''to''),
                       re_plus re_s, re_plus re_d, FRACTION 1, Bnd]"

definition EXCHANGE_RATE :: re where
  "EXCHANGE_RATE = seqs [Bnd, ilit (str ''exchange''), re_plus re_s, ilit (str ''rate''), Bnd,
                         Star re_dot, re_d]"

definition CURRENCY_PATTERNS :: "re list" where
  "CURRENCY_PATTERNS =
     [RATE_OF, NUMBER_CODE, CODE_NUMBER, SYMBOL_NUMBER, CONVERTS_TO, EXCHANGE_RATE]"

definition contains_currency_rate_or_conversion :: "ustr \<Rightarrow> bool" where
  "contains_currency_rate_or_conversion t =
     (if t = [] then False
      else let low = lower t in list_ex (\<lambda>p. re_found p low) CURRENCY_PATTERNS)"

definition safe_weather_without_tool :: "ustr \<Rightarrow> ustr" where
  "safe_weather_without_tool user_message =
     (let um = lower user_message in
      if any_in [str ''right now'', str ''live'', str ''currently'', str ''today''] um then
        str ''I can'' @ [APOS]
          @ str ''t guarantee a *live* weather reading without calling the weather API.''
          @ [NL, NL] @ str ''If you confirm the city (e.g., Paris) I can fetch today'' @ [APOS]
          @ str ''s forecast from the tool, or I can give seasonal guidance if you'' @ [APOS]
          @ str ''re planning ahead.''
      else if any_in [str ''in january'', str ''in february'', str ''in march'', str ''in april'',
                      str ''in may'', str ''in june'', str ''in july'', str ''in august'',
                      str ''in september'', str ''in october'', str ''in november'',
                      str ''in december'', str ''this winter'', str ''this summer'',
                      str ''season''] um then
        str ''I can'' @ [APOS]
          @ str ''t provide exact day-by-day numbers that far in advance. Forecasts are typically reliable only up to ~16 days ahead.''
          @ [NL, NL]
          @ str ''If you want, tell me your rough dates or how sensitive you are to rain/cold, and I''
          @ [APOS] @ str ''ll give seasonal expectations + a packing list.''
      else
        str ''I can'' @ [APOS]
          @ str ''t fetch an exact forecast for that date right now (forecasts are typically only available/reliable up to ~16 days ahead).''
          @ [NL, NL]
          @ str ''If you share your dates (or even just the month), I can give seasonal expectations and packing advice.'')"

definition safe_currency_without_tool :: ustr where
  "safe_currency_without_tool =
     str ''I can help convert currency, but I couldn'' @ [APOS]
       @ str ''t fetch a live exchange rate right now.'' @ [NL]
       @ str ''Please send it like: **'' @ [LDQ] @ str ''100 USD to EUR'' @ [RDQ]
       @ str ''** (amount + from + to).''"

text \<open>Python's truth value of a value, and \<open>sep.join(parts)\<close>.\<close>

fun py_truthy :: "pyval \<Rightarrow> bool" where
  "py_truthy PNone = False"
| "py_truthy (PBool b) = b"
| "py_truthy (PInt i) = (i \<noteq> 0)"
| "py_truthy (PFloat r) = (r \<noteq> 0)"
| "py_truthy (PStr t) = (t \<noteq> [])"
| "py_truthy (PDate dt) = True"
| "py_truthy (PList vs) = (vs \<noteq> [])"
| "py_truthy (PDict kvs) = (kvs \<noteq> [])"

fun join :: "ustr \<Rightarrow> ustr list \<Rightarrow> ustr" where
  "join sep [] = []"
| "join sep [p] = p"
| "join sep (p # ps) = p @ sep @ join sep ps"

text \<open>
  \<open>_safe_live_weather_response\<close>.  The f-strings render values of the tool data;
  \<open>fmt\<close> is that rendering (\<open>format(v)\<close>, which for a float is floating-point
  printing).  \<open>today.get\<close> is an \<open>AttributeError\<close> when the tool data hold a true
  value that is not a dict under \<open>today\<close>.
\<close>

definition safe_live_weather_response ::
  "(pyval \<Rightarrow> ustr) \<Rightarrow> pydict option \<Rightarrow> py_error + ustr" where
  "safe_live_weather_response fmt tool_data =
     (case tool_data of
        Some (kv # kvs) \<Rightarrow>
          let td = kv # kvs;
              loc = (case map_of td (str ''location'') of
                       None \<Rightarrow> str ''that city'' | Some v \<Rightarrow> fmt v);
              timeframe = (case map_of td (str ''timeframe'') of
                             None \<Rightarrow> str ''today'' | Some v \<Rightarrow> fmt v)
          in (case (case dict_get td (str ''today'') of
                      PDict t \<Rightarrow> Inr t
                    | v \<Rightarrow> if py_truthy v then Inl AttributeError else Inr [])
              of
                Inl e \<Rightarrow> Inl e
              | Inr today \<Rightarrow>
                  let tmin = dict_get today (str ''temp_min_c'');
                      tmax = dict_get today (str ''temp_max_c'');
                      precip = dict_get today (str ''precip_mm'')
                  in Inr (join [NL, NL]
                       ([str ''I can'' @ [APOS]
                           @ str ''t guarantee a *live right-now* temperature reading to 0.1''
                           @ [DEGREE] @ str ''C.'',
                         str ''What I *can* fetch is today'' @ [APOS]
                           @ str ''s forecast summary for '' @ loc @ str '' ('' @ timeframe
                           @ str '').'']
                        @ (if tmin \<noteq> PNone \<and> tmax \<noteq> PNone then
                             [str ''Today'' @ [APOS] @ str ''s forecast range: low '' @ fmt tmin
                                @ [DEGREE] @ str ''C, high '' @ fmt tmax @ [DEGREE] @ str ''C.'']
                           else [])
                        @ (if precip \<noteq> PNone then
                             [str ''Forecast precipitation: '' @ fmt precip @ str '' mm.'']
                           else [])
                        @ [str ''If you still need *current observed temperature*, use a live weather app/station feed.''])))
      | _ \<Rightarrow>
          Inr (str ''I can'' @ [APOS]
                 @ str ''t guarantee a *live right-now* weather reading without calling the weather API.''
                 @ [NL, NL] @ str ''If you confirm the city (e.g., Paris) I can fetch today''
                 @ [APOS] @ str ''s forecast from the tool.''))"

text \<open>
  \<open>apply\<close>, stage by stage on the pair of the text and the reasons collected so
  far.
\<close>

definition tool_code_stage :: "ustr \<times> ustr list \<Rightarrow> ustr \<times> ustr list" where
  "tool_code_stage tr =
     (if looks_like_tool_code (fst tr)
      then (strip_tool_code_fences (fst tr), snd tr @ [str ''tool_code_leak''])
      else tr)"

definition realtime_stage :: "Intent \<Rightarrow> ustr \<Rightarrow> ustr \<times> ustr list \<Rightarrow> ustr \<times> ustr list" where
  "realtime_stage intent user_message tr =
     (let low = lower (fst tr); realtime_hit = any_in REALTIME_CLAIMS low in
      if realtime_hit \<and> \<not> (intent = WEATHER_QUERY \<and> user_requested_live user_message)
      then (rewrite_no_realtime_claim (fst tr), snd tr @ [str ''realtime_claim''])
      else tr)"

definition weather_stage ::
  "(pyval \<Rightarrow> ustr) \<Rightarrow> Intent \<Rightarrow> pydict option \<Rightarrow> ustr \<Rightarrow> ustr \<times> ustr list
     \<Rightarrow> py_error + ustr \<times> ustr list" where
  "weather_stage fmt intent tool_data user_message tr =
     (if intent = WEATHER_QUERY then
        (if tool_data = None \<and> user_requested_exact_daily user_message then
           Inr (safe_weather_without_tool user_message,
                snd tr @ [str ''exact_daily_weather_without_tool''])
         else if user_requested_live user_message then
           (case safe_live_weather_response fmt tool_data of
              Inl e \<Rightarrow> Inl e
            | Inr t \<Rightarrow> Inr (t, snd tr @ [str ''live_weather_request'']))
         else if tool_data = None then
           (if contains_specific_forecast_numbers (fst tr) user_message
            then Inr (safe_weather_without_tool user_message,
                      snd tr @ [str ''weather_numbers_without_tool''])
            else Inr tr)
         else Inr tr)
      else Inr tr)"

definition currency_stage ::
  "Intent \<Rightarrow> pydict option \<Rightarrow> ustr \<times> ustr list \<Rightarrow> ustr \<times> ustr list" where
  "currency_stage intent tool_data tr =
     (if intent = CURRENCY_CONVERSION \<and> tool_data = None
         \<and> contains_currency_rate_or_conversion (fst tr)
      then (safe_currency_without_tool, snd tr @ [str ''currency_numbers_without_tool''])
      else tr)"

definition trust_apply ::
  "(pyval \<Rightarrow> ustr) \<Rightarrow> Intent \<Rightarrow> ustr \<Rightarrow> pydict option \<Rightarrow> ustr \<Rightarrow> py_error + TrustResult"
  where
  "trust_apply fmt intent assistant_text tool_data user_message =
     (let t = strip assistant_text in
      if t = [] then Inr \<lparr>trust_text = t, flagged = False, reasons = []\<rparr>
      else
        case weather_stage fmt intent tool_data user_message
               (realtime_stage intent user_message (tool_code_stage (t, []))) of
          Inl e \<Rightarrow> Inl e
        | Inr tr \<Rightarrow>
            let tr' = currency_stage intent tool_data tr in
            Inr \<lparr>trust_text = fst tr', flagged = (snd tr' \<noteq> []), reasons = snd tr'\<rparr>)"

section \<open>Session store (\<open>backend/core/state_manager.py\<close>)\<close>

type_synonym store = "ustr \<Rightarrow> State option"

definition get_or_create :: "store \<Rightarrow> ustr \<Rightarrow> store \<times> State" where
  "get_or_create states sid =
     (case states sid of
        Some st \<Rightarrow> (states, st)
      | None \<Rightarrow> (states(sid \<mapsto> new_State sid), new_State sid))"

text \<open>\<open>h[-n:]\<close>: the last \<open>n\<close> elements, and the whole list for \<open>n = 0\<close>.\<close>

definition py_last :: "nat \<Rightarrow> 'a list \<Rightarrow> 'a list" where
  "py_last n h = (if n = 0 then h else drop (length h - n) h)"

definition add_message :: "nat \<Rightarrow> Role \<Rightarrow> ustr \<Rightarrow> State \<Rightarrow> State" where
  "add_message max_history_messages r c st =
     (let h = conversation_history st @ [\<lparr>role = r, content = c\<rparr>] in
      st\<lparr>conversation_history :=
           (if length h > max_history_messages then py_last max_history_messages h else h)\<rparr>)"

definition increment_turn :: "State \<Rightarrow> State" where
  "increment_turn st = st\<lparr>turn_count := turn_count st + 1\<rparr>"

section \<open>Turn orchestrator (\<open>backend/core/flow_controller.py\<close>)\<close>

record IntentResult =
  ir_intent :: Intent
  extracted_updates :: pydict

record ToolResult =
  tool_ok :: bool
  tool_data :: pydict
  tool_error :: "ustr option"

record TurnResponse =
  resp_session_id :: ustr
  assistant_message :: ustr

text \<open>
  The collaborators of a \<open>FlowController\<close> are injected through its constructor.
  \<open>deps\<close> holds what each of them does when \<open>handle_turn\<close> calls it: its result, or
  the exception it raises.  They are called with the session state but are taken not
  to modify it (those under \<open>backend\<close> do not).  \<open>d_convert\<close> stands for
  \<open>currency_client.convert(amount=float(amount), from_ccy=str(from_ccy),
  to_ccy=str(to_ccy))\<close>, the conversions of the arguments included; \<open>d_today\<close> is
  \<open>date.today()\<close>, \<open>d_fromiso\<close> is \<open>date.fromisoformat\<close> and \<open>d_max_history\<close>
  is the store's \<open>max_history_messages\<close>.  The error text handed to the recovery
  handler is the exception, or \<open>None\<close> for a missing decision.
\<close>

record deps =
  d_classify :: "ustr \<Rightarrow> Message list \<Rightarrow> ustr list \<Rightarrow> py_error + IntentResult"
  d_validate :: "Intent \<Rightarrow> State \<Rightarrow> py_error + ValidationResult"
  d_decide :: "Intent \<Rightarrow> ValidationResult \<Rightarrow> ustr \<Rightarrow> State \<Rightarrow> py_error + Decision option"
  d_generate :: "Intent \<Rightarrow> State \<Rightarrow> Message list \<Rightarrow> pydict option \<Rightarrow> py_error + ustr"
  d_get_weather :: "TripProfile \<Rightarrow> py_error + ToolResult"
  d_convert :: "pyval \<Rightarrow> pyval \<Rightarrow> pyval \<Rightarrow> py_error + ToolResult"
  d_recover :: "State \<Rightarrow> ustr \<Rightarrow> Intent \<Rightarrow> Message list \<Rightarrow> py_error option
                  \<Rightarrow> py_error + FallbackResult"
  d_trust :: "Intent \<Rightarrow> ustr \<Rightarrow> pydict option \<Rightarrow> ustr \<Rightarrow> py_error + TrustResult"
  d_today :: date
  d_fromiso :: "ustr \<Rightarrow> date option"
  d_max_history :: nat

definition recent_messages :: "State \<Rightarrow> nat \<Rightarrow> Message list" where
  "recent_messages st limit = py_last limit (conversation_history st)"

text \<open>\<open>_infer_pending_from_assistant\<close>: the keyword tests on the lower-cased text.\<close>

definition infer_currency_slot :: "ustr \<Rightarrow> ustr list option" where
  "infer_currency_slot low =
     (if contains low (str ''between'') \<or> contains low (str ''which currencies'') then
        Some [str ''currency_pair'']
      else if contains low (str ''amount'') \<or> contains low (str ''how much'') then
        Some [str ''currency_amount'']
      else if contains low (str ''from'') \<and> contains low (str ''currency'') then
        Some [str ''currency_from'']
      else if contains low (str ''to'') \<and> contains low (str ''currency'') then
        Some [str ''currency_to'']
      else None)"

definition infer_general_slot :: "ustr \<Rightarrow> ustr list" where
  "infer_general_slot low =
     (if contains low (str ''interest'') then [str ''interests'']
      else if contains low (str ''budget'') then [str ''budget'']
      else if contains low (str ''who'') \<or> contains low (str ''traveling'') then
        [str ''travelers'']
      else if contains low (str ''pace'') then [str ''pace'']
      else if contains low (str ''month'') then [str ''dates_or_duration'']
      else if contains low (str ''date'') \<or> contains low (str ''when'') then
        [str ''dates_or_duration'']
      else if contains low (str ''where'') \<or> contains low (str ''city'')
              \<or> contains low (str ''country'') then [str ''destination'']
      else [])"

definition infer_pending_from_assistant ::
  "deps \<Rightarrow> ustr \<Rightarrow> Intent \<Rightarrow> State \<Rightarrow> py_error + ustr list" where
  "infer_pending_from_assistant dp assistant_text intent st =
     (if assistant_text = [] \<or> \<not> endswith (rstrip assistant_text) (str ''?'') then Inr []
      else
        case (if intent \<in> GOAL_INTENTS \<and> intent \<noteq> CURRENCY_CONVERSION then
                (case d_validate dp intent st of
                   Inl e \<Rightarrow> Inl e
                 | Inr validation_result \<Rightarrow>
                     Inr (if vmissing_info validation_result \<noteq> []
                          then Some (take 1 (vmissing_info validation_result)) else None))
              else Inr None)
        of
          Inl e \<Rightarrow> Inl e
        | Inr (Some slot) \<Rightarrow> Inr slot
        | Inr None \<Rightarrow>
            (case (if intent = CURRENCY_CONVERSION
                   then infer_currency_slot (lower assistant_text) else None) of
               Some slot \<Rightarrow> Inr slot
             | None \<Rightarrow> Inr (infer_general_slot (lower assistant_text))))"

definition looks_like_full_month_range :: "date \<Rightarrow> date \<Rightarrow> bool" where
  "looks_like_full_month_range sd ed =
     (year sd = year ed \<and> month sd = month ed \<and> day sd = 1 \<and> day ed \<in> {28, 29, 30, 31})"

definition YEAR_PATTERN :: re where
  "YEAR_PATTERN = seqs [Bnd, Grp 1 (Alt (lit (str ''19'')) (lit (str ''20''))), re_times 2 re_d, Bnd]"

text \<open>
  \<open>_guardrail_roll_month_without_year_forward\<close>, on the profile it mutates.  The
  \<open>try\<close> block assigns the rolled start date and then computes the rolled end date;
  a \<open>ValueError\<close> of either \<open>replace\<close> ends in the handler that clears both dates.
\<close>

definition guardrail_roll_month_without_year_forward ::
  "date \<Rightarrow> ustr \<Rightarrow> TripProfile \<Rightarrow> TripProfile" where
  "guardrail_roll_month_without_year_forward today msg trip =
     (let has_year = re_found YEAR_PATTERN msg in
      if \<not> (mentions_month msg \<and> \<not> has_year) then trip
      else case (start_date trip, end_date trip) of
        (Some sd, Some ed) \<Rightarrow>
          if looks_like_full_month_range sd ed \<and> date_less ed today then
            (case replace_year sd (year sd + 1) of
               Inl e \<Rightarrow> trip\<lparr>start_date := None, end_date := None\<rparr>
             | Inr sd' \<Rightarrow>
                 (case replace_year ed (year ed + 1) of
                    Inl e \<Rightarrow> trip\<lparr>start_date := None, end_date := None\<rparr>
                  | Inr ed' \<Rightarrow> trip\<lparr>start_date := Some sd', end_date := Some ed'\<rparr>))
          else trip
      | _ \<Rightarrow> trip)"

definition OUT_OF_SCOPE_TEXT :: ustr where
  "OUT_OF_SCOPE_TEXT =
     str ''I can help with travel planning only (itineraries, attractions, packing, weather, currency conversion). What would you like to do?''"

definition WEATHER_FAILED_TEXT :: ustr where
  "WEATHER_FAILED_TEXT =
     str ''I couldn'' @ [APOS] @ str ''t fetch weather info right now. If you tell me your dates (or month), I can still give general seasonal packing tips.''"

definition CURRENCY_USAGE_TEXT :: ustr where
  "CURRENCY_USAGE_TEXT =
     str ''To convert currency, tell me something like: '' @ [LDQ] @ str ''100 USD to EUR''
       @ [RDQ] @ str ''.''"

definition CURRENCY_FAILED_TEXT :: ustr where
  "CURRENCY_FAILED_TEXT =
     str ''I couldn'' @ [APOS] @ str ''t fetch the exchange rate right now. Try again in a moment, or share the currencies in the format ''
       @ [LDQ] @ str ''100 USD to EUR'' @ [RDQ] @ str ''.''"

definition UNKNOWN_TOOL_TEXT :: ustr where
  "UNKNOWN_TOOL_TEXT =
     str ''I can'' @ [APOS] @ str ''t run that tool right now. What would you like to do next?''"

text \<open>
  Generation with tool data followed by the trust layer, as both tool branches of
  \<open>_execute_decision\<close> do it.
\<close>

definition generate_and_trust ::
  "deps \<Rightarrow> Intent \<Rightarrow> State \<Rightarrow> pydict \<Rightarrow> ustr \<Rightarrow> py_error + ustr" where
  "generate_and_trust dp intent st data user_message =
     (case d_generate dp intent st (recent_messages st 8) (Some data) of
        Inl e \<Rightarrow> Inl e
      | Inr t \<Rightarrow>
          (case d_trust dp intent t (Some data) user_message of
             Inl e \<Rightarrow> Inl e
           | Inr tr \<Rightarrow> Inr (trust_text tr)))"

text \<open>
  \<open>_execute_decision\<close>: the text it returns or the exception it raises, with the
  state as it leaves it (the currency branch restores \<open>last_intent\<close>).
\<close>

definition execute_decision ::
  "deps \<Rightarrow> Decision \<Rightarrow> State \<Rightarrow> Intent \<Rightarrow> ustr \<Rightarrow> State \<times> (py_error + ustr)" where
  "execute_decision dp decision st intent user_message =
     (if action decision = OUT_OF_SCOPE_RESPONSE then (st, Inr OUT_OF_SCOPE_TEXT)
      else if action decision = ASK_CLARIFICATION then
        (st, Inr (build_clarification_question (missing_info decision)))
      else if action decision = CALL_TOOL then
        (if tool_name decision = Some (str ''weather'') then
           (case d_get_weather dp (trip_profile st) of
              Inl e \<Rightarrow> (st, Inl e)
            | Inr tool_result \<Rightarrow>
                if tool_ok tool_result then
                  (st, generate_and_trust dp intent st (tool_data tool_result) user_message)
                else (st, Inr WEATHER_FAILED_TEXT))
         else if tool_name decision = Some (str ''currency'') then
           (let payload = (case tool_payload decision of None \<Rightarrow> [] | Some p \<Rightarrow> p);
                amt = dict_get payload (str ''amount'');
                fc = dict_get payload (str ''from_ccy'');
                tc = dict_get payload (str ''to_ccy'')
            in if amt = PNone \<or> fc = PNone \<or> tc = PNone then (st, Inr CURRENCY_USAGE_TEXT)
               else case d_convert dp amt fc tc of
                 Inl e \<Rightarrow> (st, Inl e)
               | Inr tool_result \<Rightarrow>
                   if tool_ok tool_result then
                     (case generate_and_trust dp intent st (tool_data tool_result) user_message of
                        Inl e \<Rightarrow> (st, Inl e)
                      | Inr t \<Rightarrow>
                          ((if primary_intent st \<noteq> None
                            then st\<lparr>last_intent := primary_intent st\<rparr> else st),
                           Inr t))
                   else (st, Inr CURRENCY_FAILED_TEXT))
         else (st, Inr UNKNOWN_TOOL_TEXT))
      else (st, d_generate dp intent st (recent_messages st 8) None))"

text \<open>
  The state and the text after the recovery handler has answered: the pending slot
  is the first one of the handler's, or the one inferred from its message.
\<close>

definition adopt_fallback ::
  "deps \<Rightarrow> FallbackResult \<Rightarrow> Intent \<Rightarrow> State \<Rightarrow> State \<times> (py_error + ustr)" where
  "adopt_fallback dp fb intent st =
     (case (if fpending_missing_info fb \<noteq> [] then Inr (take 1 (fpending_missing_info fb))
            else infer_pending_from_assistant dp (message fb) intent st) of
        Inl e \<Rightarrow> (st, Inl e)
      | Inr pending \<Rightarrow>
          let st1 = st\<lparr>pending_missing_info := pending\<rparr>;
              st2 = (case resolved_intent fb of
                       Some g \<Rightarrow> if g \<in> GOAL_INTENTS then st1\<lparr>last_intent := Some g\<rparr> else st1
                     | None \<Rightarrow> st1)
          in (st2, Inr (message fb)))"

text \<open>The end of every path: the assistant message is stored and returned.\<close>

definition reply :: "deps \<Rightarrow> ustr \<Rightarrow> State \<Rightarrow> State \<times> (py_error + ustr)" where
  "reply dp assistant_text st =
     (add_message (d_max_history dp) Assistant assistant_text st, Inr assistant_text)"

text \<open>The branch \<open>if decision is None\<close>.\<close>

definition missing_decision ::
  "deps \<Rightarrow> ustr \<Rightarrow> Intent \<Rightarrow> State \<Rightarrow> State \<times> (py_error + ustr)" where
  "missing_decision dp user_message intent st =
     (case d_recover dp st user_message intent (recent_messages st 8) None of
        Inl e \<Rightarrow> (st, Inl e)
      | Inr fb \<Rightarrow>
          (case adopt_fallback dp fb intent st of
             (st1, Inl e) \<Rightarrow> (st1, Inl e)
           | (st1, Inr assistant_text) \<Rightarrow>
               (case d_trust dp intent assistant_text None user_message of
                  Inl e \<Rightarrow> (st1, Inl e)
                | Inr tr \<Rightarrow> reply dp (trust_text tr) st1)))"

text \<open>The update of the pending slot from the decision (the single-field loop).\<close>

definition pending_after_decision :: "Decision \<Rightarrow> ustr list \<Rightarrow> Intent \<Rightarrow> ustr list" where
  "pending_after_decision decision prev_pending intent =
     (if action decision = ASK_CLARIFICATION then take 1 (missing_info decision)
      else if prev_pending = [str ''currency_amount''] \<and> intent \<noteq> CURRENCY_CONVERSION
      then prev_pending
      else [])"

text \<open>
  The \<open>try\<close> statement: the decision is executed, an empty text counts as a
  \<open>RuntimeError\<close>, and any exception is answered by the recovery handler.
\<close>

definition execute_or_recover ::
  "deps \<Rightarrow> Decision \<Rightarrow> State \<Rightarrow> Intent \<Rightarrow> ustr \<Rightarrow> State \<times> (py_error + ustr)" where
  "execute_or_recover dp decision st intent user_message =
     (let (st1, res) = execute_decision dp decision st intent user_message;
          res1 = (case res of
                    Inl e \<Rightarrow> Inl e
                  | Inr t \<Rightarrow> if t = [] \<or> strip t = [] then Inl RuntimeError else Inr t)
      in case res1 of
           Inr t \<Rightarrow> (st1, Inr t)
         | Inl e \<Rightarrow>
             (case d_recover dp st1 user_message intent (recent_messages st1 8) (Some e) of
                Inl e' \<Rightarrow> (st1, Inl e')
              | Inr fb \<Rightarrow> adopt_fallback dp fb intent st1))"

text \<open>The part of \<open>handle_turn\<close> after a decision has been made.\<close>

definition carry_out ::
  "deps \<Rightarrow> Decision \<Rightarrow> ustr list \<Rightarrow> ustr \<Rightarrow> Intent \<Rightarrow> State \<Rightarrow> State \<times> (py_error + ustr)"
  where
  "carry_out dp decision prev_pending user_message intent st =
     (let st1 = st\<lparr>pending_missing_info := pending_after_decision decision prev_pending intent\<rparr>
      in case execute_or_recover dp decision st1 intent user_message of
           (st2, Inl e) \<Rightarrow> (st2, Inl e)
         | (st2, Inr t) \<Rightarrow>
             (case (if action decision \<noteq> CALL_TOOL then
                      (case d_trust dp intent t None user_message of
                         Inl e \<Rightarrow> Inl e
                       | Inr tr \<Rightarrow> Inr (trust_text tr))
                    else Inr t) of
                Inl e \<Rightarrow> (st2, Inl e)
              | Inr assistant_text \<Rightarrow>
                  if action decision = GENERATE_RESPONSE \<and> pending_missing_info st2 = [] then
                    (case infer_pending_from_assistant dp assistant_text intent st2 of
                       Inl e \<Rightarrow> (st2, Inl e)
                     | Inr pending \<Rightarrow>
                         reply dp assistant_text (st2\<lparr>pending_missing_info := pending\<rparr>))
                  else reply dp assistant_text st2))"

text \<open>Intent bookkeeping: \<open>constraints_update\<close> continues the active goal.\<close>

definition intent_for_flow_of :: "Intent \<Rightarrow> Intent option \<Rightarrow> Intent" where
  "intent_for_flow_of raw prev_intent =
     (if raw = CONSTRAINTS_UPDATE then
        (case goal_of prev_intent of Some g \<Rightarrow> g | None \<Rightarrow> CLARIFICATION_NEEDED)
      else raw)"

definition remember_intent :: "Intent \<Rightarrow> State \<Rightarrow> State" where
  "remember_intent intent st =
     (if intent \<in> GOAL_INTENTS then
        (if intent \<noteq> CURRENCY_CONVERSION
         then st\<lparr>last_intent := Some intent, primary_intent := Some intent\<rparr>
         else st\<lparr>last_intent := Some intent\<rparr>)
      else st)"

text \<open>
  \<open>handle_turn\<close> on the state of the session: the state as the turn leaves it, with
  the assistant message, or with the exception that ends the turn.
\<close>

definition handle_turn_state :: "deps \<Rightarrow> ustr \<Rightarrow> State \<Rightarrow> State \<times> (py_error + ustr)" where
  "handle_turn_state dp user_message st =
     (let prev_intent = last_intent st; prev_pending = pending_missing_info st in
      case d_classify dp user_message (recent_messages st 6) (pending_missing_info st) of
        Inl e \<Rightarrow> (st, Inl e)
      | Inr intent_result \<Rightarrow>
          let st1 = add_message (d_max_history dp) User user_message st in
          case apply_updates (d_fromiso dp) (trip_profile st1) (extracted_updates intent_result) of
            (trip, Some e) \<Rightarrow> (st1\<lparr>trip_profile := trip\<rparr>, Inl e)
          | (trip, None) \<Rightarrow>
              let st2 = st1\<lparr>trip_profile :=
                          guardrail_roll_month_without_year_forward (d_today dp) user_message trip\<rparr>;
                  intent = intent_for_flow_of (ir_intent intent_result) prev_intent;
                  st3 = increment_turn (remember_intent intent st2)
              in case d_validate dp intent st3 of
                   Inl e \<Rightarrow> (st3, Inl e)
                 | Inr validation \<Rightarrow>
                     (case d_decide dp intent validation user_message st3 of
                        Inl e \<Rightarrow> (st3, Inl e)
                      | Inr None \<Rightarrow> missing_decision dp user_message intent st3
                      | Inr (Some decision) \<Rightarrow>
                          carry_out dp decision prev_pending user_message intent st3))"

text \<open>\<open>handle_turn\<close> on the store.\<close>

definition handle_turn ::
  "deps \<Rightarrow> store \<Rightarrow> ustr \<Rightarrow> ustr \<Rightarrow> store \<times> (py_error + TurnResponse)" where
  "handle_turn dp states sid user_message =
     (let (states1, st) = get_or_create states sid;
          (st', res) = handle_turn_state dp user_message st
      in (states1(sid \<mapsto> st'),
          case res of
            Inl e \<Rightarrow> Inl e
          | Inr t \<Rightarrow> Inr \<lparr>resp_session_id = sid, assistant_message = t\<rparr>))"

text \<open>
  The collaborators \<open>FlowController()\<close> builds by default, over what lies outside the
  program in this turn: the answers of the intent classifier, the response generator
  and the two tool clients, the outcome of the recovery handler's generation call,
  the rendering of tool values, the date, \<open>date.fromisoformat\<close>, and the history
  bound.
\<close>

record externals =
  x_classify :: "py_error + IntentResult"
  x_generate :: "py_error + ustr"
  x_weather :: "py_error + ToolResult"
  x_currency :: "py_error + ToolResult"
  x_fallback_llm :: "py_error + ustr option"
  x_fmt :: "pyval \<Rightarrow> ustr"
  x_today :: date
  x_fromiso :: "ustr \<Rightarrow> date option"

definition default_deps :: "externals \<Rightarrow> deps" where
  "default_deps x =
     \<lparr>d_classify = (\<lambda>msg recent pending. x_classify x),
      d_validate = (\<lambda>intent st. Inr (validate intent st)),
      d_decide = (\<lambda>intent validation msg st.
                    case decide (x_today x) intent validation msg st of
                      Inl e \<Rightarrow> Inl e | Inr dc \<Rightarrow> Inr (Some dc)),
      d_generate = (\<lambda>intent st recent data. x_generate x),
      d_get_weather = (\<lambda>trip. x_weather x),
      d_convert = (\<lambda>a f t. x_currency x),
      d_recover = (\<lambda>st msg intent recent err. recover (x_fallback_llm x) st (Some intent)),
      d_trust = trust_apply (x_fmt x),
      d_today = x_today x,
      d_fromiso = x_fromiso x,
      d_max_history = 12\<rparr>"

section \<open>Notions used to state the properties\<close>

text \<open>
  The strings a list update contributes (stripped, non-empty, in the order of the
  update), a list reduced to the first occurrence of each entry, and a session's
  successive calls of \<open>apply_updates\<close> on one profile (a call that raises leaves the
  profile as it was when the exception occurred, and the next call goes on from there).
\<close>

fun cleaned_items :: "pyval list \<Rightarrow> ustr list" where
  "cleaned_items [] = []"
| "cleaned_items (PStr t # vs) =
     (if strip t \<noteq> [] then strip t # cleaned_items vs else cleaned_items vs)"
| "cleaned_items (v # vs) = cleaned_items vs"

definition cleaned_items_of :: "pyval \<Rightarrow> ustr list" where
  "cleaned_items_of v = (case v of PList vs \<Rightarrow> cleaned_items vs | _ \<Rightarrow> [])"

definition first_seen :: "'a list \<Rightarrow> 'a list" where
  "first_seen xs = rev (remdups (rev xs))"

fun apply_seq :: "(ustr \<Rightarrow> date option) \<Rightarrow> TripProfile \<Rightarrow> pydict list \<Rightarrow> TripProfile" where
  "apply_seq fromiso p [] = p"
| "apply_seq fromiso p (upd # upds) =
     apply_seq fromiso (fst (apply_updates fromiso p upd)) upds"

text \<open>
  A bare number: the message, stripped, is a non-empty run of ASCII digits; its value
  is \<open>digits_val\<close> of that run.
\<close>

definition bare_number :: "ustr \<Rightarrow> bool" where
  "bare_number msg = (strip msg \<noteq> [] \<and> list_all is_digit (strip msg))"

text \<open>
  The currency pair most recently supplied in a history \<open>ms\<close> (newest message
  first): that of the first user message with a parseable pair among the \<open>n\<close>
  newest non-blank user messages.
\<close>

fun recent_pair :: "nat \<Rightarrow> Message list \<Rightarrow> (ustr \<times> ustr) option" where
  "recent_pair n [] = None"
| "recent_pair n (m # ms) =
     (if role m \<noteq> User \<or> strip (content m) = [] then recent_pair n ms
      else if n = 0 then None
      else case part_pair (extract_currency_parts (strip (content m))) of
             Some pr \<Rightarrow> Some pr
           | None \<Rightarrow> recent_pair (n - 1) ms)"

text \<open>
  Two properties of a match state or a pattern, used in the proofs about the parsers:
  the rest of the text has no character of a class, and a pattern consumes at least
  one character in every match.
\<close>

definition nochar :: "(cp \<Rightarrow> bool) \<Rightarrow> mstate \<Rightarrow> bool" where
  "nochar P st = (\<forall>c\<in>set (fst (snd st)). \<not> P c)"

definition strict :: "re \<Rightarrow> bool" where
  "strict r = (\<forall>st x. x \<in> set (mt r st) \<longrightarrow> length (fst (snd x)) < length (fst (snd st)))"

text \<open>
  The goal \<open>recover\<close> works for (the incoming intent if it is a goal, else the
  standing one), and the condition under which it gets as far as the generation
  collaborator: no slot is pending, there is such a goal, and the goal validates.
\<close>

definition recovery_goal :: "State \<Rightarrow> Intent option \<Rightarrow> Intent option" where
  "recovery_goal st intent_for_flow =
     (if goal_of intent_for_flow \<noteq> None then intent_for_flow else goal_of (last_intent st))"

definition reaches_generation :: "State \<Rightarrow> Intent option \<Rightarrow> bool" where
  "reaches_generation st intent_for_flow =
     (pending_missing_info st = []
      \<and> (case recovery_goal st intent_for_flow of
            None \<Rightarrow> False
          | Some g \<Rightarrow> ok (validate g st)))"

text \<open>
  The guardrail's handler for an invalid rolled date is reached: the message names a
  month and no year, the profile holds a past full-month range, and one of the two
  dates does not exist a year later.
\<close>

definition guardrail_clears :: "date \<Rightarrow> ustr \<Rightarrow> TripProfile \<Rightarrow> bool" where
  "guardrail_clears today msg trip =
     (mentions_month msg \<and> \<not> re_found YEAR_PATTERN msg
      \<and> (case (start_date trip, end_date trip) of
            (Some sd, Some ed) \<Rightarrow>
              looks_like_full_month_range sd ed \<and> date_less ed today
              \<and> (\<not> valid_date (sd\<lparr>year := year sd + 1\<rparr>)
                   \<or> \<not> valid_date (ed\<lparr>year := year ed + 1\<rparr>))
          | _ \<Rightarrow> False))"

text \<open>Every field that is set in \<open>p\<close> is set in \<open>q\<close>, and the lists of \<open>p\<close> are kept.\<close>

definition keeps_set_fields :: "TripProfile \<Rightarrow> TripProfile \<Rightarrow> bool" where
  "keeps_set_fields p q =
     ((destination p \<noteq> None \<longrightarrow> destination q \<noteq> None)
      \<and> (duration_days p \<noteq> None \<longrightarrow> duration_days q \<noteq> None)
      \<and> (budget p \<noteq> None \<longrightarrow> budget q \<noteq> None)
      \<and> (travelers p \<noteq> None \<longrightarrow> travelers q \<noteq> None)
      \<and> (pace p \<noteq> None \<longrightarrow> pace q \<noteq> None)
      \<and> set (interests p) \<subseteq> set (interests q)
      \<and> set (constraints p) \<subseteq> set (constraints q))"

definition keeps_dates :: "TripProfile \<Rightarrow> TripProfile \<Rightarrow> bool" where
  "keeps_dates p q =
     ((start_date p \<noteq> None \<longrightarrow> start_date q \<noteq> None)
      \<and> (end_date p \<noteq> None \<longrightarrow> end_date q \<noteq> None))"

section \<open>Example inputs\<close>

definition ex_update :: pydict where
  "ex_update =
     [(str ''interests'', PList [PStr (str '' food ''), PStr (str ''museums''), PStr (str ''food'')]),
      (str ''constraints'', PList [PStr (str ''vegan'')])]"

definition ex_today :: date where
  "ex_today = \<lparr>year = 2025, month = 3, day = 15\<rparr>"

definition ex_paris :: TripProfile where
  "ex_paris = new_TripProfile\<lparr>destination := Some (str ''Paris'')\<rparr>"

text \<open>A weather session for Paris, and the same with a duration of zero days.\<close>

definition ex_weather_state :: State where
  "ex_weather_state = (new_State (str ''s1''))\<lparr>trip_profile := ex_paris\<rparr>"

definition ex_zero_duration_state :: State where
  "ex_zero_duration_state =
     (new_State (str ''s1''))\<lparr>trip_profile := ex_paris\<lparr>duration_days := Some 0\<rparr>\<rparr>"

text \<open>
  A currency session: the user gave the pair, was asked for the amount, and now
  answers \<open>100\<close>; and the same session with a duration of zero days in the profile.
\<close>

definition ex_pair_then_amount :: "Message list" where
  "ex_pair_then_amount =
     [\<lparr>role = User, content = str ''USD to EUR''\<rparr>,
      \<lparr>role = Assistant, content = str ''What amount do you want to convert? (e.g., 100)''\<rparr>]"

definition ex_amount_pending_state :: State where
  "ex_amount_pending_state =
     (new_State (str ''s1''))\<lparr>
        conversation_history := ex_pair_then_amount @ [\<lparr>role = User, content = str ''100''\<rparr>],
        last_intent := Some CURRENCY_CONVERSION,
        pending_missing_info := [str ''currency_amount'']\<rparr>"

definition ex_amount_pending_zero_duration :: State where
  "ex_amount_pending_zero_duration =
     ex_amount_pending_state\<lparr>trip_profile := new_TripProfile\<lparr>duration_days := Some 0\<rparr>\<rparr>"

text \<open>
  A currency session in which the user gave \<open>100\<close> first, was asked for the
  currencies, and now answers \<open>EUR to USD\<close>.
\<close>

definition ex_pair_pending_state :: State where
  "ex_pair_pending_state =
     (new_State (str ''s1''))\<lparr>
        conversation_history :=
          [\<lparr>role = User, content = str ''100''\<rparr>,
           \<lparr>role = Assistant, content = str ''Which currencies are you converting between?''\<rparr>,
           \<lparr>role = User, content = str ''EUR to USD''\<rparr>],
        last_intent := Some CURRENCY_CONVERSION,
        pending_missing_info := [str ''currency_pair'']\<rparr>"

text \<open>An itinerary session with everything the itinerary needs.\<close>

definition ex_itinerary_state :: State where
  "ex_itinerary_state =
     (new_State (str ''s1''))\<lparr>
        trip_profile := ex_paris\<lparr>duration_days := Some 3\<rparr>,
        last_intent := Some ITINERARY_PLANNING,
        primary_intent := Some ITINERARY_PLANNING\<rparr>"

definition ex_rate_text :: ustr where
  "ex_rate_text = str ''The rate is 0.84, so 100 USD converts to 84.00 EUR''"

text \<open>
  A session that holds February 2024 as its dates, asked about February a year later:
  the classifier extracts nothing new, and the generator answers with a text.
\<close>

definition ex_february_state :: State where
  "ex_february_state =
     (new_State (str ''s1''))\<lparr>
        trip_profile := new_TripProfile\<lparr>destination := Some (str ''Rome''),
          start_date := Some \<lparr>year = 2024, month = 2, day = 1\<rparr>,
          end_date := Some \<lparr>year = 2024, month = 2, day = 29\<rparr>\<rparr>,
        last_intent := Some WEATHER_QUERY,
        primary_intent := Some WEATHER_QUERY\<rparr>"

definition ex_externals :: externals where
  "ex_externals =
     \<lparr>x_classify = Inr \<lparr>ir_intent = WEATHER_QUERY, extracted_updates = []\<rparr>,
      x_generate = Inr (str ''February in Rome is mild and often rainy.''),
      x_weather = Inl RuntimeError,
      x_currency = Inl RuntimeError,
      x_fallback_llm = Inl RuntimeError,
      x_fmt = (\<lambda>v. []),
      x_today = ex_today,
      x_fromiso = (\<lambda>t. None)\<rparr>"

text \<open>A first message that the classifier cannot place.\<close>

definition ex_unclear_externals :: externals where
  "ex_unclear_externals =
     ex_externals\<lparr>x_classify := Inr \<lparr>ir_intent = CLARIFICATION_NEEDED, extracted_updates = []\<rparr>\<rparr>"


section \<open>The matcher on texts without the characters a pattern needs\<close>

lemma mt_Cls_none: "\<forall>c\<in>set s. \<not> P c \<Longrightarrow> mt (Cls P) (p, s, g) = []"
  by (cases s) (auto simp add: mt.simps)

lemma mt_span:
  "st' \<in> set (mt r st) \<Longrightarrow>
   \<exists>k. k \<le> length (fst (snd st)) \<and> fst (snd st') = drop k (fst (snd st))
     \<and> fst st' = (if k = 0 then fst st else Some (fst (snd st) ! (k - 1)))"
proof (induction r st arbitrary: st' rule: mt.induct)
  case (1 st)
  then show ?case by (auto simp add: mt.simps)
next
  case (2 P p s g)
  show ?case
  proof (cases s)
    case Nil
    with "2.prems" show ?thesis by (simp add: mt.simps)
  next
    case (Cons c cs)
    with "2.prems" have "st' = (Some c, cs, g)"
      by (simp add: mt.simps split: if_splits)
    with Cons show ?thesis
      by (intro exI[of _ "Suc 0"]) simp
  qed
next
  case (3 a b st)
  from "3.prems" obtain st1 where s1: "st1 \<in> set (mt a st)" and s2: "st' \<in> set (mt b st1)"
    by (auto simp add: mt.simps)
  from "3.IH"(1)[OF s1] obtain k1 where k1: "k1 \<le> length (fst (snd st))"
     "fst (snd st1) = drop k1 (fst (snd st))"
     "fst st1 = (if k1 = 0 then fst st else Some (fst (snd st) ! (k1 - 1)))" by blast
  from "3.IH"(2)[OF s1 s2] obtain k2 where k2: "k2 \<le> length (fst (snd st1))"
     "fst (snd st') = drop k2 (fst (snd st1))"
     "fst st' = (if k2 = 0 then fst st1 else Some (fst (snd st1) ! (k2 - 1)))" by blast
  show ?case
  proof (rule exI[of _ "k1 + k2"], intro conjI)
    show "k1 + k2 \<le> length (fst (snd st))" using k1 k2 by simp
    show "fst (snd st') = drop (k1 + k2) (fst (snd st))" using k1 k2 by (simp add: add.commute)
    show "fst st' = (if k1 + k2 = 0 then fst st else Some (fst (snd st) ! (k1 + k2 - 1)))"
    proof (cases "k2 = 0")
      case True
      then show ?thesis using k1 k2 by simp
    next
      case False
      then have "fst (snd st1) ! (k2 - 1) = fst (snd st) ! (k1 + (k2 - 1))"
        using k1 k2 by simp
      then show ?thesis using False k2 by (simp add: Nat.add_diff_assoc)
    qed
  qed
next
  case (4 a b st)
  from "4.prems" have "st' \<in> set (mt a st) \<or> st' \<in> set (mt b st)"
    by (simp add: mt.simps)
  then show ?case using "4.IH" by blast
next
  case (5 a p s g)
  from "5.prems" have "st' \<in> set (concat (map (\<lambda>st'. if length (fst (snd st')) < length s then mt (Star a) st' else [])
                 (mt a (p, s, g))) @ [(p, s, g)])"
    by (simp only: mt.simps)
  then consider (stop) "st' = (p, s, g)"
    | (iter) st1 where "st1 \<in> set (mt a (p, s, g))" "length (fst (snd st1)) < length s"
        "st' \<in> set (mt (Star a) st1)"
    by (auto split: if_splits)
  then show ?case
  proof cases
    case stop
    then show ?thesis by auto
  next
    case iter
    from "5.IH"(1)[OF iter(1)] obtain k1 where k1: "k1 \<le> length s"
     "fst (snd st1) = drop k1 s"
     "fst st1 = (if k1 = 0 then p else Some (s ! (k1 - 1)))" by auto
    from "5.IH"(2)[OF iter(1) iter(2) iter(3)] obtain k2 where k2: "k2 \<le> length (fst (snd st1))"
     "fst (snd st') = drop k2 (fst (snd st1))"
     "fst st' = (if k2 = 0 then fst st1 else Some (fst (snd st1) ! (k2 - 1)))" by blast
    show ?thesis
    proof (rule exI[of _ "k1 + k2"], intro conjI)
      show "k1 + k2 \<le> length (fst (snd (p, s, g)))" using k1 k2 by simp
      show "fst (snd st') = drop (k1 + k2) (fst (snd (p, s, g)))" using k1 k2 by (simp add: add.commute)
      show "fst st' = (if k1 + k2 = 0 then fst (p, s, g) else Some (fst (snd (p, s, g)) ! (k1 + k2 - 1)))"
      proof (cases "k2 = 0")
        case True
        then show ?thesis using k1 k2 by simp
      next
        case False
        then have "fst (snd st1) ! (k2 - 1) = s ! (k1 + (k2 - 1))"
          using k1 k2 by simp
        then show ?thesis using False k2 by (simp add: Nat.add_diff_assoc)
      qed
    qed
  qed
next
  case (6 p s g)
  then show ?case by (auto simp add: mt.simps split: if_splits)
next
  case (7 n a p s g)
  from "7.prems" obtain st1 where s1: "st1 \<in> set (mt a (p, s, g))"
    and e: "st' = (fst st1, fst (snd st1), (n, take (length s - length (fst (snd st1))) s) # snd (snd st1))"
    by (auto simp add: mt.simps)
  from "7.IH"[OF s1] e show ?case by auto
qed



lemma mt_keeps_nochar: "st' \<in> set (mt r st) \<Longrightarrow> nochar P st \<Longrightarrow> nochar P st'"
proof -
  assume a: "st' \<in> set (mt r st)" and n: "nochar P st"
  from mt_span[OF a] obtain k where "fst (snd st') = drop k (fst (snd st))" by blast
  with n show ?thesis
    by (auto simp add: nochar_def dest: in_set_dropD)
qed

lemma dead_Cls: "nochar P st \<Longrightarrow> mt (Cls P) st = []"
  by (cases st) (simp add: nochar_def mt_Cls_none)

lemma dead_Seq_left: "mt a st = [] \<Longrightarrow> mt (Seq a b) st = []"
  by (simp add: mt.simps)

lemma dead_Seq_right: "(\<And>st'. nochar P st' \<Longrightarrow> mt b st' = []) \<Longrightarrow> nochar P st \<Longrightarrow> mt (Seq a b) st = []"
  by (auto simp add: mt.simps dest: mt_keeps_nochar)

lemma dead_Grp: "mt a st = [] \<Longrightarrow> mt (Grp n a) st = []"
  by (cases st) (simp add: mt.simps)

lemma search_from_dead:
  "(\<And>st. nochar P st \<Longrightarrow> mt r st = []) \<Longrightarrow> \<forall>c\<in>set s. \<not> P c \<Longrightarrow> search_from r p s = None"
proof (induction s arbitrary: p)
  case Nil
  then show ?case by (simp add: search_from.simps nochar_def)
next
  case (Cons c cs)
  have "mt r (p, c # cs, []) = []"
    using Cons.prems by (simp add: nochar_def)
  moreover have "search_from r (Some c) cs = None"
    using Cons by simp
  ultimately show ?case
    by (subst search_from.simps) simp
qed

lemma re_search_dead:
  "(\<And>st. nochar P st \<Longrightarrow> mt r st = []) \<Longrightarrow> \<forall>c\<in>set s. \<not> P c \<Longrightarrow> re_search r s = None"
proof -
  assume a: "\<And>st. nochar P st \<Longrightarrow> mt r st = []" and b: "\<forall>c\<in>set s. \<not> P c"
  have "search_from r None s = None"
    by (rule search_from_dead[where P = P]) (use a b in auto)
  then show ?thesis by (simp add: re_search_def)
qed

lemma dead_TOKEN: "nochar is_token_cp st \<Longrightarrow> mt (TOKEN n) st = []"
  by (simp add: TOKEN_def re_plus_def dead_Grp dead_Seq_left dead_Cls)

lemma dead_PAIR_TO: "nochar is_token_cp st \<Longrightarrow> mt PAIR_TO st = []"
  by (simp add: PAIR_TO_def dead_Seq_left dead_TOKEN)

lemma dead_PAIR_SEP: "nochar is_token_cp st \<Longrightarrow> mt PAIR_SEP st = []"
  by (simp add: PAIR_SEP_def dead_Seq_left dead_TOKEN)

lemma dead_QUERY_PAIR_FIRST: "nochar is_token_cp st \<Longrightarrow> mt QUERY_PAIR_FIRST st = []"
  by (simp add: QUERY_PAIR_FIRST_def dead_Seq_left dead_TOKEN)

lemma dead_QUERY_AMOUNT_FIRST: "nochar is_token_cp st \<Longrightarrow> mt QUERY_AMOUNT_FIRST st = []"
  unfolding QUERY_AMOUNT_FIRST_def seqs.simps
  by (intro dead_Seq_right[where P = is_token_cp] dead_Seq_left dead_TOKEN)

lemma dead_DAY_N: "nochar (\<lambda>c. c = 100) st \<Longrightarrow> mt DAY_N st = []"
proof -
  have "mt (lit (str ''day'')) st' = []" if "nochar (\<lambda>c. c = 100) st'" for st'
    using that by (simp add: str_def re_chr_def dead_Seq_left dead_Cls)
  then have "mt (Seq (lit (str ''day'')) r) st' = []" if "nochar (\<lambda>c. c = 100) st'" for st' r
    using that by (simp add: dead_Seq_left)
  then show "nochar (\<lambda>c. c = 100) st \<Longrightarrow> mt DAY_N st = []"
    unfolding DAY_N_def seqs.simps
    by (rule dead_Seq_right[where P = "\<lambda>c. c = 100"])
qed



lemma strict_Cls: "strict (Cls P)"
  unfolding strict_def
proof (intro allI impI)
  fix st x assume a: "x \<in> set (mt (Cls P) st)"
  obtain p s g where st: "st = (p, s, g)" by (cases st) auto
  with a show "length (fst (snd x)) < length (fst (snd st))"
    by (cases s) (auto simp add: mt.simps split: if_splits)
qed

lemma strict_Seq: "strict a \<Longrightarrow> strict (Seq a b)"
  unfolding strict_def
proof (intro allI impI)
  fix st x assume s: "\<forall>st x. x \<in> set (mt a st) \<longrightarrow> length (fst (snd x)) < length (fst (snd st))"
    and a: "x \<in> set (mt (Seq a b) st)"
  from a obtain y where y: "y \<in> set (mt a st)" and x: "x \<in> set (mt b y)"
    by (auto simp add: mt.simps)
  from mt_span[OF x] have "length (fst (snd x)) \<le> length (fst (snd y))" by auto
  with s y show "length (fst (snd x)) < length (fst (snd st))"
    by (meson le_less_trans)
qed

lemma strict_Alt: "strict a \<Longrightarrow> strict b \<Longrightarrow> strict (Alt a b)"
  unfolding strict_def
proof (intro allI impI)
  fix st x
  assume a: "\<forall>st x. x \<in> set (mt a st) \<longrightarrow> length (fst (snd x)) < length (fst (snd st))"
    and b: "\<forall>st x. x \<in> set (mt b st) \<longrightarrow> length (fst (snd x)) < length (fst (snd st))"
    and x: "x \<in> set (mt (Alt a b) st)"
  from x have "x \<in> set (mt a st) \<or> x \<in> set (mt b st)" by (simp add: mt.simps)
  with a b show "length (fst (snd x)) < length (fst (snd st))" by blast
qed

lemma strict_AMOUNT_body:
  "strict (Alt (seqs [re_from1 3 re_d, Star (Seq (re_chr 44) (re_times 3 re_d)),
                       re_opt (Seq (re_chr 46) (re_plus re_d))])
                (Seq (re_plus re_d) (re_opt (Seq (re_chr 46) (re_plus re_d)))))"
  by (simp add: re_from1_def re_plus_def re_d_def strict_Alt strict_Seq strict_Cls)

lemma AMOUNT_results:
  assumes "x \<in> set (mt (AMOUNT n) (p, s, g))"
  shows "\<exists>k. 0 < k \<and> k \<le> length s \<and> fst (snd x) = drop k s \<and> fst x = Some (s ! (k - 1))
           \<and> re_group (snd (snd x)) n = take k s"
proof -
  let ?A = "Alt (seqs [re_from1 3 re_d, Star (Seq (re_chr 44) (re_times 3 re_d)),
                       re_opt (Seq (re_chr 46) (re_plus re_d))])
                (Seq (re_plus re_d) (re_opt (Seq (re_chr 46) (re_plus re_d))))"
  from assms obtain y where y: "y \<in> set (mt ?A (p, s, g))"
    and x: "x = (fst y, fst (snd y), (n, take (length s - length (fst (snd y))) s) # snd (snd y))"
    by (auto simp add: AMOUNT_def mt.simps(7))
  from mt_span[OF y] obtain k where k: "k \<le> length s" "fst (snd y) = drop k s"
    "fst y = (if k = 0 then p else Some (s ! (k - 1)))" by auto
  from strict_AMOUNT_body y have "length (fst (snd y)) < length s"
    unfolding strict_def by fastforce
  with k have "0 < k" by (cases k) auto
  with k x show ?thesis
    by (intro exI[of _ k]) (simp add: re_group_def)
qed

lemma star_digits_full:
  "list_all is_digit ds \<Longrightarrow>
   (Some (last (c0 # ds)), [], g) \<in> set (mt (Star re_d) (Some c0, ds, g))"
proof (induction ds arbitrary: c0)
  case Nil
  show ?case by (simp add: mt.simps)
next
  case (Cons c cs)
  then have c: "is_digit c" and cs: "list_all is_digit cs" by simp_all
  have "(Some (last (c # cs)), [], g) \<in> set (mt (Star re_d) (Some c, cs, g))"
    by (rule Cons.IH[OF cs])
  moreover have "mt re_d (Some c0, c # cs, g) = [(Some c, cs, g)]"
    using c by (simp add: re_d_def mt.simps)
  ultimately have "(Some (last (c # cs)), [], g) \<in> set (mt (Star re_d) (Some c0, c # cs, g))"
    by (subst mt.simps(5)) simp
  then show ?case by simp
qed

lemma plus_digits_full:
  "list_all is_digit ds \<Longrightarrow> ds \<noteq> [] \<Longrightarrow> (Some (last ds), [], g) \<in> set (mt (re_plus re_d) (p, ds, g))"
proof -
  assume d: "list_all is_digit ds" and n: "ds \<noteq> []"
  then obtain c cs where ds: "ds = c # cs" by (cases ds) auto
  with d have c: "is_digit c" and cs: "list_all is_digit cs" by simp_all
  have "mt re_d (p, c # cs, g) = [(Some c, cs, g)]"
    using c by (simp add: re_d_def mt.simps)
  moreover from star_digits_full[OF cs, of c g]
  have "(Some (last (c # cs)), [], g) \<in> set (mt (Star re_d) (Some c, cs, g))" .
  ultimately show ?thesis
    by (simp add: re_plus_def mt.simps(3) ds)
qed

lemma AMOUNT_digits_full:
  assumes "list_all is_digit ds" and "ds \<noteq> []"
  shows "\<exists>g'. (Some (last ds), [], g') \<in> set (mt (AMOUNT n) (p, ds, g))"
proof -
  have "(Some (last ds), [], g) \<in> set (mt (Seq (re_plus re_d) (re_opt (Seq (re_chr 46) (re_plus re_d)))) (p, ds, g))"
    using plus_digits_full[OF assms, of g p]
    by (force simp add: mt.simps(1,3,4) re_opt_def)
  then have "(Some (last ds), [], g) \<in> set (mt (Alt (seqs [re_from1 3 re_d, Star (Seq (re_chr 44) (re_times 3 re_d)),
                       re_opt (Seq (re_chr 46) (re_plus re_d))])
                (Seq (re_plus re_d) (re_opt (Seq (re_chr 46) (re_plus re_d))))) (p, ds, g))"
    by (simp add: mt.simps(4))
  then show ?thesis
    unfolding AMOUNT_def by (force simp add: mt.simps(7))
qed

lemma is_digit_word: "is_digit c \<Longrightarrow> is_word c"
  by (simp add: is_word_def)

lemma search_amount_digits:
  assumes d: "list_all is_digit ds" and n: "ds \<noteq> []"
  shows "\<exists>m. re_search (seqs [Bnd, AMOUNT 1, Bnd]) ds = Some m \<and> re_group m 1 = ds"
proof -
  let ?L = "mt (seqs [Bnd, AMOUNT 1, Bnd]) (None, ds, [])"
  from n obtain c cs where ds: "ds = c # cs" by (cases ds) auto
  with d have "is_word c" by (simp add: is_digit_word)
  then have b0: "at_boundary None ds" by (simp add: at_boundary_def ds)
  then have L: "?L = concat (map (mt Bnd) (mt (AMOUNT 1) (None, ds, [])))"
    by (simp add: mt.simps(3,6))
  have all: "re_group (snd (snd x)) 1 = ds" if "x \<in> set ?L" for x
  proof -
    from that L obtain y where y: "y \<in> set (mt (AMOUNT 1) (None, ds, []))" and x: "x \<in> set (mt Bnd y)"
      by auto
    from AMOUNT_results[OF y] obtain k where k: "0 < k" "k \<le> length ds" "fst (snd y) = drop k ds"
      "fst y = Some (ds ! (k - 1))" "re_group (snd (snd y)) 1 = take k ds" by blast
    from x have xy: "x = y" and bd: "at_boundary (fst y) (fst (snd y))"
      by (cases y; simp add: mt.simps(6) split: if_splits)+
    have w: "is_word (ds ! (k - 1))"
      using d k by (simp add: is_digit_word list_all_length)
    have "drop k ds = []"
    proof (rule ccontr)
      assume ne: "drop k ds \<noteq> []"
      then obtain e es where e: "drop k ds = e # es" by (cases "drop k ds") auto
      then have "e \<in> set ds" by (metis in_set_dropD list.set_intros(1))
      with d have "is_word e" by (simp add: is_digit_word list_all_iff)
      with bd k w e show False by (simp add: at_boundary_def)
    qed
    with k have "take k ds = ds" by simp
    with k xy show ?thesis by simp
  qed
  from AMOUNT_digits_full[OF d n, of 1 None "[]"] obtain g' where
    g': "(Some (last ds), [], g') \<in> set (mt (AMOUNT 1) (None, ds, []))" by blast
  have "is_word (last ds)" using d n by (simp add: is_digit_word list_all_iff)
  then have "(Some (last ds), [], g') \<in> set (mt Bnd (Some (last ds), [], g'))"
    by (simp add: mt.simps(6) at_boundary_def)
  with g' L have "(Some (last ds), [], g') \<in> set ?L" by auto
  then obtain x xs where xs: "?L = x # xs" by (cases ?L) auto
  then have "search_from (seqs [Bnd, AMOUNT 1, Bnd]) None ds = Some x"
    by (subst search_from.simps) simp
  moreover from xs all[of x] have "re_group (snd (snd x)) 1 = ds" by simp
  ultimately show ?thesis
    by (cases x) (simp add: re_search_def)
qed


section \<open>Currency parsers on bare numbers\<close>

lemma digit_not_token: "is_digit c \<Longrightarrow> \<not> is_token_cp c"
  by (auto simp add: is_digit_def is_token_cp_def is_upper_az_def is_lower_az_def DOLLAR_def SHEKEL_def EURO_def)

lemma lower_digits: "list_all is_digit ds \<Longrightarrow> lower ds = ds"
  by (induction ds) (auto simp add: lower_def lower_cp_def is_digit_def is_upper_az_def)

lemma replace_by_absent: "old = [c] \<Longrightarrow> c \<notin> set ds \<Longrightarrow> replace_by (=) old new ds = ds"
  by (induction ds) auto

lemma replace_comma_digits: "list_all is_digit ds \<Longrightarrow> replace ds (str '','') [] = ds"
  unfolding replace_def
  by (rule replace_by_absent[where c = 44]) (auto simp add: str_def list_all_iff is_digit_def)

lemma py_float_digits: "list_all is_digit ds \<Longrightarrow> ds \<noteq> [] \<Longrightarrow> py_float ds = Some (of_nat (digits_val ds))"
  by (simp add: py_float_def Let_def list_all_iff takeWhile_eq_all_conv[THEN iffD2] dropWhile_eq_Nil_conv[THEN iffD2])

lemma strip_Nil: "strip [] = []"
  by (simp add: strip_def lstrip_def rstrip_def)

lemma bare_number_parse:
  assumes "bare_number msg"
  shows "parse_currency_query msg = None" and "parse_currency_pair msg = None"
    and "parse_currency_amount msg
           = (if 0 < digits_val (strip msg) then Some (of_nat (digits_val (strip msg))) else None)"
proof -
  let ?ds = "strip msg"
  from assms have ne: "?ds \<noteq> []" and dg: "list_all is_digit ?ds"
    by (simp_all add: bare_number_def)
  from ne have m: "msg \<noteq> []" using strip_Nil by auto
  from dg have nt: "\<forall>c\<in>set ?ds. \<not> is_token_cp c"
    by (simp add: list_all_iff digit_not_token)
  from dg have nd: "\<forall>c\<in>set ?ds. \<not> c = 100"
    by (auto simp add: list_all_iff is_digit_def)
  have q1: "re_search QUERY_AMOUNT_FIRST ?ds = None"
    by (rule re_search_dead[where P = is_token_cp]) (use nt dead_QUERY_AMOUNT_FIRST in auto)
  have q2: "re_search QUERY_PAIR_FIRST ?ds = None"
    by (rule re_search_dead[where P = is_token_cp]) (use nt dead_QUERY_PAIR_FIRST in auto)
  have p1: "re_search PAIR_TO ?ds = None"
    by (rule re_search_dead[where P = is_token_cp]) (use nt dead_PAIR_TO in auto)
  have p2: "re_search PAIR_SEP ?ds = None"
    by (rule re_search_dead[where P = is_token_cp]) (use nt dead_PAIR_SEP in auto)
  have dn: "re_search DAY_N ?ds = None"
    by (rule re_search_dead[where P = "\<lambda>c. c = 100"]) (use nd dead_DAY_N in auto)
  from m q1 q2 show "parse_currency_query msg = None"
    by (simp add: parse_currency_query_def)
  from m p1 p2 show "parse_currency_pair msg = None"
    by (simp add: parse_currency_pair_def)
  from search_amount_digits[OF dg ne] obtain mm where
    mm: "re_search (seqs [Bnd, AMOUNT 1, Bnd]) ?ds = Some mm" "re_group mm 1 = ?ds" by blast
  have "parse_amount_str ?ds = (if 0 < digits_val ?ds then Some (of_nat (digits_val ?ds)) else None)"
    using ne dg by (simp add: parse_amount_str_def replace_comma_digits py_float_digits)
  with m mm dn dg show "parse_currency_amount msg
           = (if 0 < digits_val (strip msg) then Some (of_nat (digits_val (strip msg))) else None)"
    by (simp add: parse_currency_amount_def Let_def lower_digits re_found_def)
qed

lemma scan_history_pair:
  "snd (scan_history allow mx False True ms cnt fa None) = recent_pair (mx - cnt) ms"
proof (induction ms arbitrary: cnt fa)
  case Nil
  show ?case by simp
next
  case (Cons m ms)
  show ?case
  proof (cases "role m \<noteq> User \<or> strip (content m) = []")
    case True
    then show ?thesis using Cons.IH by auto
  next
    case False
    note F = this
    show ?thesis
    proof (cases "mx - cnt = 0")
      case True
      with F show ?thesis by (simp add: Let_def)
    next
      case False
      then have lt: "\<not> cnt + 1 > mx" by simp
      have eq: "mx - (cnt + 1) = mx - cnt - 1" by simp
      show ?thesis
      proof (cases "part_pair (extract_currency_parts (strip (content m)))")
        case None
        with F False lt show ?thesis
          using Cons.IH[of "cnt + 1"] by (simp add: Let_def eq del: Suc_eq_plus1 add: Suc_eq_plus1[symmetric])
      next
        case (Some pr)
        with F False lt show ?thesis
          by (simp add: Let_def)
      qed
    qed
  qed
qed


section \<open>Decision logic: currency\<close>

lemma combine_bare_number:
  assumes b: "bare_number msg" and v: "0 < digits_val (strip msg)"
  shows "combine_currency_query_from_history msg prior mx allow
     = (case recent_pair mx (rev prior) of
          None \<Rightarrow> None
        | Some (f, t) \<Rightarrow>
            Some \<lparr>amount = of_nat (digits_val (strip msg)), from_ccy = f, to_ccy = t\<rparr>)"
proof -
  from bare_number_parse[OF b] v
  have e: "extract_currency_parts msg
             = \<lparr>part_amount = Some (of_nat (digits_val (strip msg))), part_pair = None\<rparr>"
    and q: "parse_currency_query msg = None"
    by (simp_all add: extract_currency_parts_def)
  have s: "snd (scan_history allow mx False True (rev prior) 0 None None) = recent_pair mx (rev prior)"
    using scan_history_pair[of allow mx "rev prior" 0 None] by simp
  show ?thesis
    by (simp add: combine_currency_query_from_history_def q e Let_def case_prod_beta s
        split: option.splits)
qed

lemma str_nonempty_currency: "str ''currency'' \<noteq> []"
  by (simp add: str_def)

text \<open>
  C3, as amended.  The session is waiting for \<open>currency_amount\<close>, the history is
  as \<open>handle_turn\<close> passes it (the messages before this turn, then the current user
  message), a currency pair can be parsed from one of the ten newest non-blank user
  messages before this turn, the current message is a bare positive number, and
  validation passes.  Then \<open>decide\<close> with the currency intent returns call-tool
  \<open>currency\<close> whose payload holds that number as the amount and the most recently
  supplied pair as the from and to currencies.
\<close>

theorem decide_amount_after_pair:
  assumes "pending_missing_info st = [str ''currency_amount'']"
    and "conversation_history st = prior @ [\<lparr>role = User, content = msg\<rparr>]"
    and "recent_pair 10 (rev prior) = Some (f, t)"
    and "bare_number msg" and "0 < digits_val (strip msg)"
    and "ok validation"
  shows "decide today CURRENCY_CONVERSION validation msg st
     = Inr \<lparr>action = CALL_TOOL, missing_info = [], tool_name = Some (str ''currency''),
            decision_notes = Some (str
              ''Currency conversion -> call tool (use resolved currency_query; no re-parse in FlowController)''),
            tool_payload = Some [(str ''amount'', PFloat (of_nat (digits_val (strip msg)))),
                                 (str ''from_ccy'', PStr f), (str ''to_ccy'', PStr t)]\<rparr>"
proof -
  have "resolve_currency_query msg st
          = Some \<lparr>amount = of_nat (digits_val (strip msg)), from_ccy = f, to_ccy = t\<rparr>"
    using assms bare_number_parse(1)[OF assms(4)]
    by (simp add: resolve_currency_query_def combine_bare_number)
  with assms(6) show ?thesis
    by (simp add: decide_def Decision_init_def str_nonempty_currency)
qed

theorem decide_amount_after_pair_witness:
  "decide ex_today CURRENCY_CONVERSION (validate CURRENCY_CONVERSION ex_amount_pending_state)
      (str ''100'') ex_amount_pending_state
     = Inr \<lparr>action = CALL_TOOL, missing_info = [], tool_name = Some (str ''currency''),
            decision_notes = Some (str
              ''Currency conversion -> call tool (use resolved currency_query; no re-parse in FlowController)''),
            tool_payload = Some [(str ''amount'', PFloat 100),
                                 (str ''from_ccy'', PStr (str ''USD'')),
                                 (str ''to_ccy'', PStr (str ''EUR''))]\<rparr>"
proof -
  have h1: "pending_missing_info ex_amount_pending_state = [str ''currency_amount'']"
    by (simp add: ex_amount_pending_state_def)
  have h2: "conversation_history ex_amount_pending_state
              = ex_pair_then_amount @ [\<lparr>role = User, content = str ''100''\<rparr>]"
    by (simp add: ex_amount_pending_state_def)
  have h3: "recent_pair 10 (rev ex_pair_then_amount) = Some (str ''USD'', str ''EUR'')"
    by code_simp
  have h4: "bare_number (str ''100'')"
    by code_simp
  have h5: "0 < digits_val (strip (str ''100''))"
    by code_simp
  have h6: "ok (validate CURRENCY_CONVERSION ex_amount_pending_state)"
    by code_simp
  have v: "(of_nat (digits_val (strip (str ''100''))) :: rat) = 100"
    by code_simp
  from decide_amount_after_pair[OF h1 h2 h3 h4 h5 h6, of ex_today] v
  show ?thesis by simp
qed

text \<open>
  C3 as stated fails: with a duration of zero days in the profile validation does not
  pass, and the same turn is answered by a clarification question instead of the
  currency tool.
\<close>

theorem decide_amount_after_pair_blocked_by_validation:
  "pending_missing_info ex_amount_pending_zero_duration = [str ''currency_amount'']
   \<and> conversation_history ex_amount_pending_zero_duration
        = ex_pair_then_amount @ [\<lparr>role = User, content = str ''100''\<rparr>]
   \<and> recent_pair 10 (rev ex_pair_then_amount) = Some (str ''USD'', str ''EUR'')
   \<and> bare_number (str ''100'')
   \<and> decide ex_today CURRENCY_CONVERSION
         (validate CURRENCY_CONVERSION ex_amount_pending_zero_duration)
         (str ''100'') ex_amount_pending_zero_duration
       = Inr \<lparr>action = ASK_CLARIFICATION, missing_info = [], tool_name = None,
              decision_notes = Some (str ''Missing or invalid information''),
              tool_payload = None\<rparr>"
  by code_simp


section \<open>History combination\<close>

lemma scan_history_no_amount:
  "fst (scan_history False mx na np ms cnt fa fp) = fa"
  by (induction ms arbitrary: cnt fp) (simp_all add: Let_def)

lemma combine_no_backfill:
  assumes "combine_currency_query_from_history msg hist mx False = Some q"
  shows "part_amount (extract_currency_parts msg) = Some (amount q)"
proof (cases "parse_currency_query msg")
  case (Some full)
  with assms show ?thesis
    by (simp add: combine_currency_query_from_history_def extract_currency_parts_def)
next
  case None
  let ?sc = "scan_history False mx (part_amount (extract_currency_parts msg) = None)
      (part_pair (extract_currency_parts msg) = None) (rev hist) 0 None None"
  have f: "fst ?sc = None" by (rule scan_history_no_amount)
  from assms None show ?thesis
    by (cases "part_amount (extract_currency_parts msg)")
       (auto simp add: combine_currency_query_from_history_def Let_def case_prod_beta
             scan_history_no_amount split: if_splits option.splits)
qed

text \<open>
  C7.  With \<open>allow_amount_from_history\<close> false the combiner never takes an amount
  from the history: a query it returns has the amount parsed from the current
  message, and it returns nothing when the current message has no amount.  In
  particular the prior user message \<open>100\<close> and the current message \<open>EUR to USD\<close>
  combine to nothing (and to 100 EUR to USD only when the caller permits the
  backfill), and \<open>decide\<close> does not permit it while the pending slot is
  \<open>currency_pair\<close>.
\<close>

theorem combine_never_backfills_amount:
  "(combine_currency_query_from_history msg hist mx False = Some q
      \<longrightarrow> part_amount (extract_currency_parts msg) = Some (amount q))
   \<and> (part_amount (extract_currency_parts msg) = None
      \<longrightarrow> combine_currency_query_from_history msg hist mx False = None)
   \<and> combine_currency_query_from_history (str ''EUR to USD'')
        [\<lparr>role = User, content = str ''100''\<rparr>] 10 False = None
   \<and> combine_currency_query_from_history (str ''EUR to USD'')
        [\<lparr>role = User, content = str ''100''\<rparr>] 10 True
        = Some \<lparr>amount = 100, from_ccy = str ''EUR'', to_ccy = str ''USD''\<rparr>
   \<and> pending_missing_info ex_pair_pending_state = [str ''currency_pair'']
   \<and> resolve_currency_query (str ''EUR to USD'') ex_pair_pending_state = None"
proof -
  have a: "combine_currency_query_from_history msg hist mx False = Some q
      \<longrightarrow> part_amount (extract_currency_parts msg) = Some (amount q)"
    using combine_no_backfill by blast
  have b: "part_amount (extract_currency_parts msg) = None
      \<longrightarrow> combine_currency_query_from_history msg hist mx False = None"
    using combine_no_backfill[of msg hist mx]
    by (cases "combine_currency_query_from_history msg hist mx False") auto
  have c: "combine_currency_query_from_history (str ''EUR to USD'')
        [\<lparr>role = User, content = str ''100''\<rparr>] 10 False = None"
    by code_simp
  have d: "combine_currency_query_from_history (str ''EUR to USD'')
        [\<lparr>role = User, content = str ''100''\<rparr>] 10 True
        = Some \<lparr>amount = 100, from_ccy = str ''EUR'', to_ccy = str ''USD''\<rparr>"
    by code_simp
  have e: "pending_missing_info ex_pair_pending_state = [str ''currency_pair'']"
    by (simp add: ex_pair_pending_state_def)
  have f: "resolve_currency_query (str ''EUR to USD'') ex_pair_pending_state = None"
    by code_simp
  from a b c d e f show ?thesis by blast
qed

theorem combine_never_backfills_amount_witness:
  "combine_currency_query_from_history (str ''100'')
      [\<lparr>role = User, content = str ''USD to EUR''\<rparr>] 10 False
     = Some \<lparr>amount = 100, from_ccy = str ''USD'', to_ccy = str ''EUR''\<rparr>
   \<and> part_amount (extract_currency_parts (str ''100''))
     = Some (amount \<lparr>amount = 100, from_ccy = str ''USD'', to_ccy = str ''EUR''\<rparr>)
   \<and> part_amount (extract_currency_parts (str ''EUR to USD'')) = None
   \<and> combine_currency_query_from_history (str ''EUR to USD'')
        [\<lparr>role = User, content = str ''100''\<rparr>] 10 False = None"
proof -
  have h1: "combine_currency_query_from_history (str ''100'')
      [\<lparr>role = User, content = str ''USD to EUR''\<rparr>] 10 False
     = Some \<lparr>amount = 100, from_ccy = str ''USD'', to_ccy = str ''EUR''\<rparr>"
    by code_simp
  have h2: "part_amount (extract_currency_parts (str ''EUR to USD'')) = None"
    by code_simp
  note T1 = combine_never_backfills_amount[of "str ''100''"
      "[\<lparr>role = User, content = str ''USD to EUR''\<rparr>]" 10
      "\<lparr>amount = 100, from_ccy = str ''USD'', to_ccy = str ''EUR''\<rparr>"]
  note T2 = combine_never_backfills_amount[of "str ''EUR to USD''"
      "[\<lparr>role = User, content = str ''100''\<rparr>]" 10]
  from T1 h1 have c1: "part_amount (extract_currency_parts (str ''100''))
     = Some (amount \<lparr>amount = 100, from_ccy = str ''USD'', to_ccy = str ''EUR''\<rparr>)"
    by blast
  from T2 h2 have c2: "combine_currency_query_from_history (str ''EUR to USD'')
        [\<lparr>role = User, content = str ''100''\<rparr>] 10 False = None"
    by blast
  from h1 c1 h2 c2 show ?thesis by blast
qed


section \<open>Decision logic: weather\<close>

text \<open>
  C5.  For every message that mentions a month name or has seasonal phrasing, and
  every state with passing validation, \<open>decide\<close> with the weather intent returns
  generate-response, with no tool name and no payload.
\<close>

theorem decide_seasonal_weather_no_tool:
  assumes "mentions_month msg \<or> is_seasonal_weather_question msg" and "ok validation"
  shows "decide today WEATHER_QUERY validation msg st
     = Inr \<lparr>action = GENERATE_RESPONSE, missing_info = [], tool_name = None,
            decision_notes =
              Some (str ''Seasonal weather wording -> general seasonal answer (no tool)''),
            tool_payload = None\<rparr>"
  using assms by (simp add: decide_def Decision_init_def)

theorem decide_seasonal_weather_no_tool_witness:
  "(mentions_month (str ''What is the weather like in Paris in January?'')
      \<or> is_seasonal_weather_question (str ''What is the weather like in Paris in January?''))
   \<and> is_seasonal_weather_question (str ''Is it usually rainy there?'')
   \<and> ok (validate WEATHER_QUERY ex_weather_state)
   \<and> decide ex_today WEATHER_QUERY (validate WEATHER_QUERY ex_weather_state)
        (str ''What is the weather like in Paris in January?'') ex_weather_state
     = Inr \<lparr>action = GENERATE_RESPONSE, missing_info = [], tool_name = None,
            decision_notes =
              Some (str ''Seasonal weather wording -> general seasonal answer (no tool)''),
            tool_payload = None\<rparr>
   \<and> decide ex_today WEATHER_QUERY (validate WEATHER_QUERY ex_weather_state)
        (str ''Is it usually rainy there?'') ex_weather_state
     = Inr \<lparr>action = GENERATE_RESPONSE, missing_info = [], tool_name = None,
            decision_notes =
              Some (str ''Seasonal weather wording -> general seasonal answer (no tool)''),
            tool_payload = None\<rparr>"
proof -
  have h1: "mentions_month (str ''What is the weather like in Paris in January?'')
      \<or> is_seasonal_weather_question (str ''What is the weather like in Paris in January?'')"
    by code_simp
  have h2: "is_seasonal_weather_question (str ''Is it usually rainy there?'')"
    by code_simp
  have h3: "ok (validate WEATHER_QUERY ex_weather_state)"
    by code_simp
  from h2 have h2': "mentions_month (str ''Is it usually rainy there?'')
      \<or> is_seasonal_weather_question (str ''Is it usually rainy there?'')" by blast
  from decide_seasonal_weather_no_tool[OF h1 h3, of ex_today ex_weather_state]
       decide_seasonal_weather_no_tool[OF h2' h3, of ex_today ex_weather_state]
       h1 h2 h3
  show ?thesis by blast
qed

lemma str_nonempty_weather: "str ''weather'' \<noteq> []"
  by (simp add: str_def)

text \<open>
  C10, as amended.  With both dates unset the forecast-horizon check returns true; so
  a weather message without month mention or seasonal phrasing is routed to call-tool
  \<open>weather\<close> whenever validation passes, which for the weather intent means a
  destination that is set and a duration that is unset or positive.
\<close>

theorem forecast_window_open_without_dates:
  assumes "start_date (trip_profile st) = None" and "end_date (trip_profile st) = None"
  shows "is_within_open_meteo_forecast_window today (trip_profile st) horizon_days
     \<and> (ok validation \<and> \<not> mentions_month msg \<and> \<not> is_seasonal_weather_question msg \<longrightarrow>
          decide today WEATHER_QUERY validation msg st
            = Inr \<lparr>action = CALL_TOOL, missing_info = [], tool_name = Some (str ''weather''),
                   decision_notes = Some (str ''Weather query within horizon -> call tool''),
                   tool_payload = None\<rparr>)
     \<and> (ok (validate WEATHER_QUERY st) \<longleftrightarrow>
          \<not> no_destination (trip_profile st)
          \<and> (\<forall>n. duration_days (trip_profile st) = Some n \<longrightarrow> 0 < n))"
proof -
  have w: "is_within_open_meteo_forecast_window today (trip_profile st) h" for h
    using assms by (simp add: is_within_open_meteo_forecast_window_def)
  have v: "ok (validate WEATHER_QUERY st) \<longleftrightarrow>
          \<not> no_destination (trip_profile st)
          \<and> (\<forall>n. duration_days (trip_profile st) = Some n \<longrightarrow> 0 < n)"
    by (cases "duration_days (trip_profile st)") (auto simp add: validate_def Let_def)
  have d: "ok validation \<and> \<not> mentions_month msg \<and> \<not> is_seasonal_weather_question msg \<longrightarrow>
          decide today WEATHER_QUERY validation msg st
            = Inr \<lparr>action = CALL_TOOL, missing_info = [], tool_name = Some (str ''weather''),
                   decision_notes = Some (str ''Weather query within horizon -> call tool''),
                   tool_payload = None\<rparr>"
    using w[of 16] by (simp add: decide_def Decision_init_def str_nonempty_weather)
  from w v d show ?thesis by blast
qed

theorem forecast_window_open_without_dates_witness:
  "start_date (trip_profile ex_weather_state) = None
   \<and> end_date (trip_profile ex_weather_state) = None
   \<and> ok (validate WEATHER_QUERY ex_weather_state)
   \<and> \<not> mentions_month (str ''What is the weather there?'')
   \<and> \<not> is_seasonal_weather_question (str ''What is the weather there?'')
   \<and> is_within_open_meteo_forecast_window ex_today (trip_profile ex_weather_state) 16
   \<and> decide ex_today WEATHER_QUERY (validate WEATHER_QUERY ex_weather_state)
        (str ''What is the weather there?'') ex_weather_state
       = Inr \<lparr>action = CALL_TOOL, missing_info = [], tool_name = Some (str ''weather''),
              decision_notes = Some (str ''Weather query within horizon -> call tool''),
              tool_payload = None\<rparr>"
proof -
  have h1: "start_date (trip_profile ex_weather_state) = None"
    by code_simp
  have h2: "end_date (trip_profile ex_weather_state) = None"
    by code_simp
  have h3: "ok (validate WEATHER_QUERY ex_weather_state)"
    by code_simp
  have h4: "\<not> mentions_month (str ''What is the weather there?'')"
    by code_simp
  have h5: "\<not> is_seasonal_weather_question (str ''What is the weather there?'')"
    by code_simp
  from forecast_window_open_without_dates[OF h1 h2, of ex_today 16
         "validate WEATHER_QUERY ex_weather_state" "str ''What is the weather there?''"]
       h1 h2 h3 h4 h5
  show ?thesis by blast
qed

text \<open>
  C10 as stated fails: a destination is set and no dates are known, but the duration
  of zero days fails validation and the message is answered by a clarification.
\<close>

theorem weather_without_dates_blocked_by_validation:
  "destination (trip_profile ex_zero_duration_state) = Some (str ''Paris'')
   \<and> start_date (trip_profile ex_zero_duration_state) = None
   \<and> end_date (trip_profile ex_zero_duration_state) = None
   \<and> \<not> mentions_month (str ''What is the weather there?'')
   \<and> \<not> is_seasonal_weather_question (str ''What is the weather there?'')
   \<and> decide ex_today WEATHER_QUERY (validate WEATHER_QUERY ex_zero_duration_state)
        (str ''What is the weather there?'') ex_zero_duration_state
       = Inr \<lparr>action = ASK_CLARIFICATION, missing_info = [], tool_name = None,
              decision_notes = Some (str ''Missing or invalid information''),
              tool_payload = None\<rparr>"
  by code_simp


section \<open>The Decision invariant\<close>

text \<open>
  C2, as amended.  A \<open>Decision\<close> that can be constructed has a tool name exactly
  when its action is call-tool (and then a non-empty one), and has a tool payload
  only when its action is call-tool; the construction raises exactly when call-tool
  comes without a tool name or another action comes with a tool name or a payload.
\<close>

theorem decision_tool_fields:
  "(Decision_init a mi tn nt tp = Inr dc \<longrightarrow>
      dc = \<lparr>action = a, missing_info = mi, tool_name = tn, decision_notes = nt,
             tool_payload = tp\<rparr>
      \<and> (tool_name dc \<noteq> None \<longleftrightarrow> action dc = CALL_TOOL)
      \<and> (action dc = CALL_TOOL \<longrightarrow> tool_name dc \<noteq> Some [])
      \<and> (tool_payload dc \<noteq> None \<longrightarrow> action dc = CALL_TOOL))
   \<and> (Decision_init a mi tn nt tp = Inl ValueError \<longleftrightarrow>
        (a = CALL_TOOL \<and> (tn = None \<or> tn = Some []))
        \<or> (a \<noteq> CALL_TOOL \<and> (tn \<noteq> None \<or> tp \<noteq> None)))
   \<and> (\<exists>r. Decision_init a mi tn nt tp = Inl ValueError \<or> Decision_init a mi tn nt tp = Inr r)"
  by (auto simp add: Decision_init_def)

theorem decision_tool_fields_witness:
  "Decision_init CALL_TOOL [] (Some (str ''currency'')) None
      (Some [(str ''amount'', PFloat 100)])
     = Inr \<lparr>action = CALL_TOOL, missing_info = [], tool_name = Some (str ''currency''),
            decision_notes = None, tool_payload = Some [(str ''amount'', PFloat 100)]\<rparr>
   \<and> Decision_init GENERATE_RESPONSE [] (Some (str ''weather'')) None None = Inl ValueError
   \<and> Decision_init GENERATE_RESPONSE [] None None (Some []) = Inl ValueError
   \<and> Decision_init CALL_TOOL [] None None None = Inl ValueError"
proof -
  have h1: "Decision_init CALL_TOOL [] (Some (str ''currency'')) None
      (Some [(str ''amount'', PFloat 100)])
     = Inr \<lparr>action = CALL_TOOL, missing_info = [], tool_name = Some (str ''currency''),
            decision_notes = None, tool_payload = Some [(str ''amount'', PFloat 100)]\<rparr>"
    by code_simp
  have "GENERATE_RESPONSE \<noteq> CALL_TOOL \<and> (Some (str ''weather'') \<noteq> None \<or> (None :: pydict option) \<noteq> None)"
    by simp
  with decision_tool_fields[of GENERATE_RESPONSE "[]" "Some (str ''weather'')" None None]
  have h2: "Decision_init GENERATE_RESPONSE [] (Some (str ''weather'')) None None = Inl ValueError"
    by blast
  have "GENERATE_RESPONSE \<noteq> CALL_TOOL \<and> ((None :: ustr option) \<noteq> None \<or> Some ([] :: pydict) \<noteq> None)"
    by simp
  with decision_tool_fields[of GENERATE_RESPONSE "[]" None None "Some []"]
  have h3: "Decision_init GENERATE_RESPONSE [] None None (Some []) = Inl ValueError"
    by blast
  have "CALL_TOOL = CALL_TOOL \<and> ((None :: ustr option) = None \<or> (None :: ustr option) = Some [])"
    by simp
  with decision_tool_fields[of CALL_TOOL "[]" None None None]
  have h4: "Decision_init CALL_TOOL [] None None None = Inl ValueError"
    by blast
  from h1 h2 h3 h4 show ?thesis by blast
qed

text \<open>
  C2 as stated fails: the weather decision of \<open>decide\<close> is a call-tool
  \<open>Decision\<close> that is constructed without a payload.
\<close>

theorem decision_call_tool_without_payload:
  "Decision_init CALL_TOOL [] (Some (str ''weather''))
      (Some (str ''Weather query within horizon -> call tool'')) None
     = Inr \<lparr>action = CALL_TOOL, missing_info = [], tool_name = Some (str ''weather''),
            decision_notes = Some (str ''Weather query within horizon -> call tool''),
            tool_payload = None\<rparr>"
  by code_simp

section \<open>Recovery\<close>

lemma str_Cons_nonempty: "str (c # cs) \<noteq> []"
  by (simp add: str_def)

lemma build_clarification_question_nonempty: "build_clarification_question mi \<noteq> []"
  by (simp add: build_clarification_question_def str_def split: list.splits)

lemma goal_of_in_goals: "goal_of x = Some g \<Longrightarrow> g \<in> GOAL_INTENTS \<and> x = Some g"
  by (auto simp add: goal_of_def split: option.splits if_splits)

lemma recovery_goal_in_goals: "recovery_goal st i = Some g \<Longrightarrow> g \<in> GOAL_INTENTS"
  by (auto simp add: recovery_goal_def dest: goal_of_in_goals split: if_splits)

lemma recover_generation:
  assumes "reaches_generation st i"
  shows "recover llm st i =
    (case llm of
       Inl e \<Rightarrow> Inl e
     | Inr answer \<Rightarrow>
         if strip (case answer of None \<Rightarrow> [] | Some a \<Rightarrow> a) = [] then
           Inr \<lparr>message = CANNED_GOAL_SELECTION, used_llm = False,
                fpending_missing_info = [str ''goal''], resolved_intent = recovery_goal st i\<rparr>
         else
           Inr \<lparr>message = strip (case answer of None \<Rightarrow> [] | Some a \<Rightarrow> a), used_llm = True,
                fpending_missing_info = [], resolved_intent = recovery_goal st i\<rparr>)"
proof -
  from assms obtain g where P: "pending_missing_info st = []"
    and G: "recovery_goal st i = Some g" and V: "ok (validate g st)"
    by (auto simp add: reaches_generation_def split: option.splits)
  from G have ng: "(goal_of (last_intent st) = None \<and> goal_of i = None) = False"
    by (auto simp add: recovery_goal_def split: if_splits)
  from G have g: "(if goal_of i \<noteq> None then i else goal_of (last_intent st)) = Some g"
    by (simp add: recovery_goal_def)
  from P V show ?thesis
    unfolding recover_def Let_def g ng
    by (simp add: G split: sum.splits)
qed

lemma build_goal_question: "build_clarification_question [str ''goal''] = GOAL_SELECTION"
  by code_simp

lemma recover_deterministic:
  assumes "\<not> reaches_generation st i"
  shows "\<exists>r. recover llm st i = Inr r \<and> \<not> used_llm r
     \<and> message r = build_clarification_question (fpending_missing_info r)
     \<and> length (fpending_missing_info r) \<le> 1
     \<and> (resolved_intent r = None \<or> resolved_intent r = recovery_goal st i)"
proof (cases "pending_missing_info st = []")
  case False
  then show ?thesis by (simp add: recover_def Let_def)
next
  case True
  note P = this
  show ?thesis
  proof (cases "recovery_goal st i")
    case None
    then have "goal_of (last_intent st) = None \<and> goal_of i = None"
      by (auto simp add: recovery_goal_def goal_of_def split: if_splits option.splits)
    with P show ?thesis
      by (simp add: recover_def Let_def build_goal_question)
  next
    case (Some g)
    with assms P have nv: "\<not> ok (validate g st)"
      by (simp add: reaches_generation_def)
    from Some have ng: "(goal_of (last_intent st) = None \<and> goal_of i = None) = False"
      by (auto simp add: recovery_goal_def split: if_splits)
    from Some have g: "(if goal_of i \<noteq> None then i else goal_of (last_intent st)) = Some g"
      by (simp add: recovery_goal_def)
    from P nv show ?thesis
      unfolding recover_def Let_def g ng
      by (simp add: Some)
  qed
qed

lemma recover_result:
  assumes "recover llm st i = Inr r"
  shows "message r \<noteq> [] \<and> length (fpending_missing_info r) \<le> 1
     \<and> (resolved_intent r = None \<or> resolved_intent r = recovery_goal st i)
     \<and> (\<forall>g. resolved_intent r = Some g \<longrightarrow> g \<in> GOAL_INTENTS)"
proof (cases "reaches_generation st i")
  case True
  from assms recover_generation[OF True, of llm] show ?thesis
    by (auto simp add: CANNED_GOAL_SELECTION_def str_def dest: recovery_goal_in_goals
             split: sum.splits if_splits)
next
  case False
  from recover_deterministic[OF False, of llm] assms show ?thesis
    by (auto simp add: build_clarification_question_nonempty dest: recovery_goal_in_goals)
qed

text \<open>
  C9.  \<open>recover\<close> has no handler around the call of the generation collaborator:
  in a session without a pending slot whose goal validates, a collaborator that raises
  (as \<open>GeminiClient\<close> does when the API call fails or answers nothing) makes
  \<open>recover\<close> raise, where a collaborator that returns the empty text gets the canned
  goal-selection message.
\<close>

theorem recover_raises_when_generation_raises:
  "pending_missing_info ex_itinerary_state = []
   \<and> ok (validate ITINERARY_PLANNING ex_itinerary_state)
   \<and> recover (Inl RuntimeError) ex_itinerary_state (Some ITINERARY_PLANNING) = Inl RuntimeError
   \<and> recover (Inr (Some [])) ex_itinerary_state (Some ITINERARY_PLANNING)
       = Inr \<lparr>message = CANNED_GOAL_SELECTION, used_llm = False,
              fpending_missing_info = [str ''goal''],
              resolved_intent = Some ITINERARY_PLANNING\<rparr>"
proof -
  have a: "pending_missing_info ex_itinerary_state = []"
    by code_simp
  have b: "ok (validate ITINERARY_PLANNING ex_itinerary_state)"
    by code_simp
  have c: "recover (Inl RuntimeError) ex_itinerary_state (Some ITINERARY_PLANNING) = Inl RuntimeError"
    by code_simp
  have d: "recover (Inr (Some [])) ex_itinerary_state (Some ITINERARY_PLANNING)
       = Inr \<lparr>message = CANNED_GOAL_SELECTION, used_llm = False,
              fpending_missing_info = [str ''goal''],
              resolved_intent = Some ITINERARY_PLANNING\<rparr>"
    by code_simp
  from a b c d show ?thesis by blast
qed

section \<open>Trip profile: merging updates\<close>

lemma remdups_snoc: "remdups (zs @ [x]) = remdups (filter (\<lambda>y. y \<noteq> x) zs) @ [x]"
  by (induction zs) auto

lemma first_seen_Cons: "first_seen (x # xs) = x # first_seen (filter (\<lambda>y. y \<noteq> x) xs)"
  by (simp add: first_seen_def remdups_snoc rev_filter)

lemma first_seen_Nil: "first_seen [] = []"
  by (simp add: first_seen_def)

lemma set_first_seen: "set (first_seen xs) = set xs"
  by (simp add: first_seen_def)

lemma distinct_first_seen: "distinct (first_seen xs)"
  by (simp add: first_seen_def)

lemma merge_items_eq:
  "merge_items vs acc = acc @ first_seen (filter (\<lambda>x. x \<notin> set acc) (cleaned_items vs))"
proof (induction vs acc rule: merge_items.induct)
  case (1 acc)
  show ?case by (simp add: first_seen_Nil)
next
  case (2 t vs acc)
  show ?case
  proof (cases "strip t \<noteq> [] \<and> strip t \<notin> set acc")
    case True
    have "(\<lambda>y. y \<notin> set acc \<and> y \<noteq> strip t) = (\<lambda>y. y \<noteq> strip t \<and> y \<notin> set acc)" by auto
    with True 2 show ?thesis
      by (simp add: first_seen_Cons Let_def)
  next
    case False
    with 2 show ?thesis by (auto simp add: Let_def)
  qed
qed simp_all

lemma distinct_merge_items: "distinct acc \<Longrightarrow> distinct (merge_items vs acc)"
  by (auto simp add: merge_items_eq set_first_seen distinct_first_seen)

lemma merge_items_idem: "merge_items vs (merge_items vs acc) = merge_items vs acc"
proof -
  have "filter (\<lambda>x. x \<notin> set (merge_items vs acc)) (cleaned_items vs) = []"
    by (auto simp add: merge_items_eq set_first_seen filter_empty_conv)
  then show ?thesis
    by (subst merge_items_eq) (simp add: first_seen_Nil)
qed

lemma list_update_field_eq:
  "list_update_field v old
     = old @ first_seen (filter (\<lambda>x. x \<notin> set old) (cleaned_items_of v))"
  by (cases v) (simp_all add: list_update_field_def cleaned_items_of_def merge_items_eq
      first_seen_Nil)

lemma distinct_list_update_field: "distinct old \<Longrightarrow> distinct (list_update_field v old)"
  by (cases v) (simp_all add: list_update_field_def distinct_merge_items)

lemma list_update_field_idem:
  "list_update_field v (list_update_field v old) = list_update_field v old"
  by (simp add: list_update_field_def merge_items_idem split: pyval.splits)

lemma text_update_idem: "text_update v (text_update v old) = text_update v old"
  by (simp add: text_update_def split: pyval.splits)

lemma int_update_idem: "int_update v (int_update v old) = int_update v old"
  by (simp add: int_update_def split: pyval.splits)

lemma date_update_idem: "date_update f v old = Inr x \<Longrightarrow> date_update f v x = Inr x"
  by (auto simp add: date_update_def split: pyval.splits if_splits option.splits)

lemma date_update_err: "date_update f v old = Inl e \<Longrightarrow> date_update f v x = Inl e"
  by (auto simp add: date_update_def split: pyval.splits if_splits option.splits)

lemma apply_updates_idem:
  "apply_updates f (fst (apply_updates f p upd)) upd = apply_updates f p upd"
proof (cases "upd = []")
  case True
  then show ?thesis by (simp add: apply_updates_def)
next
  case False
  show ?thesis
  proof (cases "date_update f (dict_get upd (str ''start_date'')) (start_date p)")
    case (Inl e)
    with False date_update_err[OF Inl] show ?thesis
      by (simp add: apply_updates_def Let_def text_update_idem)
  next
    case (Inr sd)
    note sd = Inr
    show ?thesis
    proof (cases "date_update f (dict_get upd (str ''end_date'')) (end_date p)")
      case (Inl e)
      with False sd date_update_idem[OF sd] date_update_err[OF Inl] show ?thesis
        by (simp add: apply_updates_def Let_def text_update_idem)
    next
      case (Inr ed)
      with False sd date_update_idem[OF sd] date_update_idem[OF Inr] show ?thesis
        by (simp add: apply_updates_def Let_def text_update_idem int_update_idem
            list_update_field_idem)
    qed
  qed
qed

lemma apply_updates_interests:
  "interests (fst (apply_updates f p upd))
     = (if upd \<noteq> [] \<and> snd (apply_updates f p upd) = None
        then list_update_field (dict_get upd (str ''interests'')) (interests p)
        else interests p)"
  by (simp add: apply_updates_def Let_def split: sum.splits)

lemma apply_updates_constraints:
  "constraints (fst (apply_updates f p upd))
     = (if upd \<noteq> [] \<and> snd (apply_updates f p upd) = None
        then list_update_field (dict_get upd (str ''constraints'')) (constraints p)
        else constraints p)"
  by (simp add: apply_updates_def Let_def split: sum.splits)

lemma apply_seq_lists:
  "distinct (interests p) \<Longrightarrow> distinct (constraints p) \<Longrightarrow>
   distinct (interests (apply_seq f p upds)) \<and> distinct (constraints (apply_seq f p upds))
   \<and> (\<exists>new. interests (apply_seq f p upds) = interests p @ new)
   \<and> (\<exists>new. constraints (apply_seq f p upds) = constraints p @ new)"
proof (induction upds arbitrary: p)
  case Nil
  then show ?case by simp
next
  case (Cons upd upds)
  let ?q = "fst (apply_updates f p upd)"
  have di: "distinct (interests ?q)"
    using Cons.prems(1) by (simp add: apply_updates_interests distinct_list_update_field)
  have dc: "distinct (constraints ?q)"
    using Cons.prems(2) by (simp add: apply_updates_constraints distinct_list_update_field)
  have pi: "\<exists>new. interests ?q = interests p @ new"
    by (simp add: apply_updates_interests list_update_field_eq)
  have pc: "\<exists>new. constraints ?q = constraints p @ new"
    by (simp add: apply_updates_constraints list_update_field_eq)
  from Cons.IH[OF di dc] pi pc show ?case
    by (auto simp add: append.assoc)
qed

text \<open>
  C6.  Along every sequence of \<open>apply_updates\<close> calls on a profile whose lists are
  free of duplicates (a new profile has empty lists), \<open>interests\<close> and
  \<open>constraints\<close> stay free of duplicates and only grow at the end, so entries keep
  the position at which they were first seen; a call that returns appends exactly
  the new entries of the update in the order of their first occurrence; and applying
  the same update dictionary a second time changes nothing: the profile and the
  outcome are those of the first call.
\<close>

theorem apply_updates_lists_distinct_ordered_idempotent:
  assumes "distinct (interests p)" and "distinct (constraints p)"
  shows "distinct (interests (apply_seq f p upds))
     \<and> distinct (constraints (apply_seq f p upds))
     \<and> (\<exists>new. interests (apply_seq f p upds) = interests p @ new)
     \<and> (\<exists>new. constraints (apply_seq f p upds) = constraints p @ new)
     \<and> (upd \<noteq> [] \<and> snd (apply_updates f p upd) = None \<longrightarrow>
          interests (fst (apply_updates f p upd))
            = interests p @ first_seen (filter (\<lambda>x. x \<notin> set (interests p))
                (cleaned_items_of (dict_get upd (str ''interests''))))
        \<and> constraints (fst (apply_updates f p upd))
            = constraints p @ first_seen (filter (\<lambda>x. x \<notin> set (constraints p))
                (cleaned_items_of (dict_get upd (str ''constraints'')))))
     \<and> apply_updates f (fst (apply_updates f p upd)) upd = apply_updates f p upd"
proof -
  have "upd \<noteq> [] \<and> snd (apply_updates f p upd) = None \<longrightarrow>
          interests (fst (apply_updates f p upd))
            = interests p @ first_seen (filter (\<lambda>x. x \<notin> set (interests p))
                (cleaned_items_of (dict_get upd (str ''interests''))))
        \<and> constraints (fst (apply_updates f p upd))
            = constraints p @ first_seen (filter (\<lambda>x. x \<notin> set (constraints p))
                (cleaned_items_of (dict_get upd (str ''constraints''))))"
    by (simp add: apply_updates_interests apply_updates_constraints list_update_field_eq)
  with apply_seq_lists[OF assms] apply_updates_idem show ?thesis
    by blast
qed

theorem apply_updates_lists_witness:
  "distinct (interests new_TripProfile) \<and> distinct (constraints new_TripProfile)
   \<and> ex_update \<noteq> [] \<and> snd (apply_updates (\<lambda>t. None) new_TripProfile ex_update) = None
   \<and> distinct (interests (apply_seq (\<lambda>t. None) new_TripProfile [ex_update, ex_update]))
   \<and> interests (fst (apply_updates (\<lambda>t. None) new_TripProfile ex_update))
        = [str ''food'', str ''museums'']
   \<and> apply_updates (\<lambda>t. None) (fst (apply_updates (\<lambda>t. None) new_TripProfile ex_update))
        ex_update = apply_updates (\<lambda>t. None) new_TripProfile ex_update"
proof -
  have h1: "distinct (interests new_TripProfile)"
    by (simp add: new_TripProfile_def)
  have h2: "distinct (constraints new_TripProfile)"
    by (simp add: new_TripProfile_def)
  have h3: "ex_update \<noteq> [] \<and> snd (apply_updates (\<lambda>t. None) new_TripProfile ex_update) = None"
    by code_simp
  have v: "interests new_TripProfile @ first_seen (filter (\<lambda>x. x \<notin> set (interests new_TripProfile))
             (cleaned_items_of (dict_get ex_update (str ''interests''))))
           = [str ''food'', str ''museums'']"
    by code_simp
  note T = apply_updates_lists_distinct_ordered_idempotent
         [OF h1 h2, of "\<lambda>t. None" "[ex_update, ex_update]" ex_update]
  from T have d: "distinct (interests (apply_seq (\<lambda>t. None) new_TripProfile [ex_update, ex_update]))"
    by (rule conjunct1)
  from T h3 have "interests (fst (apply_updates (\<lambda>t. None) new_TripProfile ex_update))
      = interests new_TripProfile @ first_seen (filter (\<lambda>x. x \<notin> set (interests new_TripProfile))
             (cleaned_items_of (dict_get ex_update (str ''interests''))))"
    by blast
  then have e: "interests (fst (apply_updates (\<lambda>t. None) new_TripProfile ex_update))
      = [str ''food'', str ''museums'']"
    using v by (rule trans)
  from T have i: "apply_updates (\<lambda>t. None)
      (fst (apply_updates (\<lambda>t. None) new_TripProfile ex_update)) ex_update
      = apply_updates (\<lambda>t. None) new_TripProfile ex_update"
    by blast
  from h1 h2 h3 d e i show ?thesis
    by (intro conjI) blast+
qed

section \<open>The turn orchestrator: the pending slot\<close>

lemma infer_currency_slot_length: "infer_currency_slot low = Some p \<Longrightarrow> length p \<le> Suc 0"
  by (auto simp add: infer_currency_slot_def split: if_splits)

lemma infer_general_slot_length: "length (infer_general_slot low) \<le> Suc 0"
  by (simp add: infer_general_slot_def)

lemma infer_pending_length:
  "infer_pending_from_assistant dp t i st = Inr p \<Longrightarrow> length p \<le> Suc 0"
  unfolding infer_pending_from_assistant_def
  by (auto simp add: infer_general_slot_length infer_currency_slot_length
           split: if_splits sum.splits option.splits)

lemma adopt_fallback_pending:
  "adopt_fallback dp fb i st = (st', Inr t) \<Longrightarrow> length (pending_missing_info st') \<le> Suc 0"
  unfolding adopt_fallback_def Let_def
  by (auto simp add: infer_pending_length split: if_splits sum.splits option.splits)

lemma adopt_fallback_raises:
  "adopt_fallback dp fb i st = (st', Inl e) \<Longrightarrow> st' = st"
  unfolding adopt_fallback_def Let_def
  by (auto split: if_splits sum.splits option.splits)

lemma reply_pending:
  "reply dp t st = (st', res) \<Longrightarrow> pending_missing_info st' = pending_missing_info st \<and> res = Inr t"
  by (auto simp add: reply_def add_message_def Let_def)

lemma missing_decision_pending:
  assumes "missing_decision dp msg i st = (st', res)"
  shows "(\<forall>t. res = Inr t \<longrightarrow> length (pending_missing_info st') \<le> Suc 0)
     \<and> (length (pending_missing_info st) \<le> Suc 0 \<longrightarrow> length (pending_missing_info st') \<le> Suc 0)"
proof (cases "d_recover dp st msg i (recent_messages st 8) None")
  case (Inl e)
  with assms show ?thesis by (auto simp add: missing_decision_def)
next
  case (Inr fb)
  obtain st1 r1 where a: "adopt_fallback dp fb i st = (st1, r1)" by (cases "adopt_fallback dp fb i st")
  show ?thesis
  proof (cases r1)
    case (Inl e)
    with a have "st1 = st" by (simp add: adopt_fallback_raises)
    with assms Inr a Inl show ?thesis by (auto simp add: missing_decision_def)
  next
    case (Inr t)
    note r1 = this
    with a have p1: "length (pending_missing_info st1) \<le> Suc 0" by (simp add: adopt_fallback_pending)
    show ?thesis
    proof (cases "d_trust dp i t None msg")
      case (Inl e)
      with assms \<open>d_recover dp st msg i (recent_messages st 8) None = Inr fb\<close> a r1 p1
      show ?thesis by (auto simp add: missing_decision_def)
    next
      case (Inr tr)
      with assms \<open>d_recover dp st msg i (recent_messages st 8) None = Inr fb\<close> a r1
      have "reply dp (trust_text tr) st1 = (st', res)" by (simp add: missing_decision_def)
      with p1 show ?thesis by (auto dest: reply_pending)
    qed
  qed
qed

lemma execute_decision_pending:
  "execute_decision dp dc st i msg = (st', res) \<Longrightarrow>
   pending_missing_info st' = pending_missing_info st"
  unfolding execute_decision_def Let_def
  by (auto split: if_splits sum.splits option.splits)

lemma execute_or_recover_pending:
  assumes "execute_or_recover dp dc st i msg = (st', res)"
    and "length (pending_missing_info st) \<le> Suc 0"
  shows "length (pending_missing_info st') \<le> Suc 0"
proof -
  obtain st1 r where e: "execute_decision dp dc st i msg = (st1, r)"
    by (cases "execute_decision dp dc st i msg")
  then have p1: "length (pending_missing_info st1) \<le> Suc 0"
    using assms(2) by (simp add: execute_decision_pending)
  from assms(1) e p1 show ?thesis
    unfolding execute_or_recover_def Let_def
    by (cases res)
       (auto split: sum.splits if_splits dest: adopt_fallback_pending adopt_fallback_raises)
qed

lemma pending_after_decision_length: "length (pending_after_decision dc prev i) \<le> Suc 0"
  by (auto simp add: pending_after_decision_def)

lemma carry_out_pending:
  assumes "carry_out dp dc prev msg i st = (st', res)"
  shows "length (pending_missing_info st') \<le> Suc 0"
proof -
  let ?st1 = "st\<lparr>pending_missing_info := pending_after_decision dc prev i\<rparr>"
  obtain st2 r where e: "execute_or_recover dp dc ?st1 i msg = (st2, r)"
    by (cases "execute_or_recover dp dc ?st1 i msg")
  then have p2: "length (pending_missing_info st2) \<le> Suc 0"
    by (rule execute_or_recover_pending) (simp add: pending_after_decision_length)
  from assms e p2 show ?thesis
    unfolding carry_out_def Let_def
    by (auto simp add: reply_def add_message_def Let_def split: sum.splits if_splits
             dest: infer_pending_length)
qed

lemma pre_decision_pending:
  "pending_missing_info (increment_turn (remember_intent i (add_message n r c st\<lparr>trip_profile := p\<rparr>)))
     = pending_missing_info st"
  by (simp add: increment_turn_def remember_intent_def add_message_def Let_def)

lemma handle_turn_state_pending:
  assumes "handle_turn_state dp msg st = (st', res)"
  shows "(\<forall>t. res = Inr t \<longrightarrow> length (pending_missing_info st') \<le> Suc 0)
     \<and> (length (pending_missing_info st) \<le> Suc 0 \<longrightarrow> length (pending_missing_info st') \<le> Suc 0)"
proof (cases "d_classify dp msg (recent_messages st 6) (pending_missing_info st)")
  case (Inl e)
  with assms show ?thesis by (auto simp add: handle_turn_state_def)
next
  case (Inr ir)
  note C = this
  let ?st1 = "add_message (d_max_history dp) User msg st"
  obtain trip err where A: "apply_updates (d_fromiso dp) (trip_profile ?st1) (extracted_updates ir) = (trip, err)"
    by (cases "apply_updates (d_fromiso dp) (trip_profile ?st1) (extracted_updates ir)")
  show ?thesis
  proof (cases err)
    case (Some e)
    with assms C A show ?thesis
      by (auto simp add: handle_turn_state_def Let_def add_message_def)
  next
    case None
    note E = this
    let ?i = "intent_for_flow_of (ir_intent ir) (last_intent st)"
    let ?st3 = "increment_turn (remember_intent ?i (?st1\<lparr>trip_profile :=
                   guardrail_roll_month_without_year_forward (d_today dp) msg trip\<rparr>))"
    have p3: "pending_missing_info ?st3 = pending_missing_info st"
      by (rule pre_decision_pending)
    show ?thesis
    proof (cases "d_validate dp ?i ?st3")
      case (Inl e)
      with assms C A E p3 show ?thesis
        by (auto simp add: handle_turn_state_def Let_def)
    next
      case (Inr v)
      note V = this
      show ?thesis
      proof (cases "d_decide dp ?i v msg ?st3")
        case (Inl e)
        with assms C A E V p3 show ?thesis
          by (auto simp add: handle_turn_state_def Let_def)
      next
        case (Inr od)
        show ?thesis
        proof (cases od)
          case None
          with assms C A E V Inr have "missing_decision dp msg ?i ?st3 = (st', res)"
            by (simp add: handle_turn_state_def Let_def)
          from missing_decision_pending[OF this] p3 show ?thesis by simp
        next
          case (Some dc)
          with assms C A E V Inr
          have "carry_out dp dc (pending_missing_info st) msg ?i ?st3 = (st', res)"
            by (simp add: handle_turn_state_def Let_def)
          from carry_out_pending[OF this] show ?thesis by simp
        qed
      qed
    qed
  qed
qed

text \<open>
  C1.  After every completed turn of \<open>handle_turn\<close> the session's
  \<open>pending_missing_info\<close> has at most one element, whatever the collaborators did
  and whichever path the turn took (a clarification or another decision, a missing
  decision, an execution error answered by the recovery handler); the other sessions
  of the store are untouched.  A turn that ends in an exception keeps the bound when it
  held before, so it holds in every store reached from the empty one.
\<close>

theorem handle_turn_pending_at_most_one:
  assumes "handle_turn dp states sid msg = (states', res)"
  shows "(\<forall>sid'. sid' \<noteq> sid \<longrightarrow> states' sid' = states sid')
     \<and> (\<exists>st'. states' sid = Some st'
           \<and> ((\<exists>r. res = Inr r) \<longrightarrow> length (pending_missing_info st') \<le> 1))
     \<and> ((\<forall>s st. states s = Some st \<longrightarrow> length (pending_missing_info st) \<le> 1)
          \<longrightarrow> (\<forall>s st. states' s = Some st \<longrightarrow> length (pending_missing_info st) \<le> 1))"
proof -
  obtain states1 st where G: "get_or_create states sid = (states1, st)"
    by (cases "get_or_create states sid")
  obtain st' r where H: "handle_turn_state dp msg st = (st', r)"
    by (cases "handle_turn_state dp msg st")
  from assms G H have S: "states' = states1(sid \<mapsto> st')"
    and R: "res = (case r of Inl e \<Rightarrow> Inl e
                   | Inr t \<Rightarrow> Inr \<lparr>resp_session_id = sid, assistant_message = t\<rparr>)"
    by (simp_all add: handle_turn_def)
  from G have O: "\<forall>sid'. sid' \<noteq> sid \<longrightarrow> states1 sid' = states sid'"
    by (auto simp add: get_or_create_def split: option.splits)
  from G have N: "states sid = Some st \<or> (states sid = None \<and> st = new_State sid)"
    by (auto simp add: get_or_create_def split: option.splits)
  note P = handle_turn_state_pending[OF H]
  have a: "\<forall>sid'. sid' \<noteq> sid \<longrightarrow> states' sid' = states sid'"
    using S O by simp
  have b: "\<exists>st'. states' sid = Some st'
           \<and> ((\<exists>r. res = Inr r) \<longrightarrow> length (pending_missing_info st') \<le> 1)"
    using S R P by (cases r) auto
  have c: "(\<forall>s st. states s = Some st \<longrightarrow> length (pending_missing_info st) \<le> 1)
          \<longrightarrow> (\<forall>s st. states' s = Some st \<longrightarrow> length (pending_missing_info st) \<le> 1)"
  proof (intro impI allI)
    fix s x
    assume inv: "\<forall>s st. states s = Some st \<longrightarrow> length (pending_missing_info st) \<le> 1"
      and x: "states' s = Some x"
    from N inv have "length (pending_missing_info st) \<le> Suc 0"
      by (auto simp add: new_State_def)
    with P have "length (pending_missing_info st') \<le> Suc 0" by simp
    with x S O inv show "length (pending_missing_info x) \<le> 1"
      by (cases "s = sid") auto
  qed
  from a b c show ?thesis by blast
qed

theorem handle_turn_pending_witness:
  "snd (handle_turn (default_deps ex_unclear_externals) Map.empty (str ''s1'') (str ''hello''))
     = Inr \<lparr>resp_session_id = str ''s1'', assistant_message = GOAL_SELECTION\<rparr>
   \<and> map_option pending_missing_info
        (fst (handle_turn (default_deps ex_unclear_externals) Map.empty (str ''s1'') (str ''hello''))
           (str ''s1'')) = Some [str ''goal'']
   \<and> (\<exists>st'. fst (handle_turn (default_deps ex_unclear_externals) Map.empty (str ''s1'')
                    (str ''hello'')) (str ''s1'') = Some st'
          \<and> length (pending_missing_info st') \<le> 1)"
proof -
  let ?h = "handle_turn (default_deps ex_unclear_externals) Map.empty (str ''s1'') (str ''hello'')"
  have e: "?h = (fst ?h, snd ?h)" by simp
  have r: "snd ?h = Inr \<lparr>resp_session_id = str ''s1'', assistant_message = GOAL_SELECTION\<rparr>"
    by code_simp
  have p: "map_option pending_missing_info (fst ?h (str ''s1'')) = Some [str ''goal'']"
    by code_simp
  from handle_turn_pending_at_most_one[OF e] r
  have "\<exists>st'. fst ?h (str ''s1'') = Some st' \<and> length (pending_missing_info st') \<le> 1"
    by auto
  with r p show ?thesis by blast
qed


end
